theory Spec2Isabelle
  imports Complex_Main "HOL-Library.Sublist"
begin

section \<open>Text primitives\<close>

text \<open>
  Python strings are modelled as \<open>string\<close> over ASCII text. Floating-point values
  (amounts, balances, confidences) are modelled by the real numbers their decimal
  notation denotes.
\<close>

definition is_digit :: "char \<Rightarrow> bool" where
  "is_digit c = (c \<in> set ''0123456789'')"

definition is_upper :: "char \<Rightarrow> bool" where
  "is_upper c = (c \<in> set ''ABCDEFGHIJKLMNOPQRSTUVWXYZ'')"

definition is_lower :: "char \<Rightarrow> bool" where
  "is_lower c = (c \<in> set ''abcdefghijklmnopqrstuvwxyz'')"

definition is_alpha :: "char \<Rightarrow> bool" where
  "is_alpha c = (is_upper c \<or> is_lower c)"

text \<open>\<open>\w\<close>: letters, digits and the underscore.\<close>

definition is_word :: "char \<Rightarrow> bool" where
  "is_word c = (is_alpha c \<or> is_digit c \<or> c = CHR ''_'')"

text \<open>
  \<open>\s\<close> and the characters removed by \<open>str.strip()\<close>, within the ASCII range: tab,
  line feed, vertical tab, form feed, carriage return, the four separators 0x1C..0x1F
  and the space.
\<close>

definition is_space :: "char \<Rightarrow> bool" where
  "is_space c = (c \<in> set [CHR 0x09, CHR 0x0A, CHR 0x0B, CHR 0x0C, CHR 0x0D,
                            CHR 0x1C, CHR 0x1D, CHR 0x1E, CHR 0x1F, CHR '' ''])"

definition lower_char :: "char \<Rightarrow> char" where
  "lower_char c =
     (case map_of (zip ''ABCDEFGHIJKLMNOPQRSTUVWXYZ'' ''abcdefghijklmnopqrstuvwxyz'') c of
        Some l \<Rightarrow> l
      | None \<Rightarrow> c)"

text \<open>\<open>str.lower()\<close>\<close>

definition lower :: "string \<Rightarrow> string" where
  "lower s = map lower_char s"

text \<open>\<open>str.strip()\<close>\<close>

definition strip :: "string \<Rightarrow> string" where
  "strip s = rev (dropWhile is_space (rev (dropWhile is_space s)))"

text \<open>\<open>s.startswith(p)\<close>\<close>

definition startswith :: "string \<Rightarrow> string \<Rightarrow> bool" where
  "startswith s p = (take (length p) s = p)"

text \<open>\<open>k in s\<close> on strings: \<open>k\<close> occurs in \<open>s\<close> as a contiguous substring.\<close>

fun py_in :: "string \<Rightarrow> string \<Rightarrow> bool" where
  "py_in k [] = (k = [])"
| "py_in k (c # cs) = (startswith (c # cs) k \<or> py_in k cs)"

text \<open>\<open>re.sub(r'\s+', ' ', s)\<close>: every maximal run of whitespace becomes one space.\<close>

function collapse_spaces :: "string \<Rightarrow> string" where
  "collapse_spaces [] = []"
| "collapse_spaces (c # cs) =
     (if is_space c then CHR '' '' # collapse_spaces (dropWhile is_space cs)
      else c # collapse_spaces cs)"
  by pat_completeness auto
termination
  by (relation "measure length") (auto simp: length_dropWhile_le less_Suc_eq_le)

text \<open>
  \<open>re.sub(r'[#*]\w*', '', s)\<close>: a \<open>#\<close> or \<open>*\<close> is removed together with the word
  characters that follow it.
\<close>

function remove_reference_codes :: "string \<Rightarrow> string" where
  "remove_reference_codes [] = []"
| "remove_reference_codes (c # cs) =
     (if c = CHR ''#'' \<or> c = CHR ''*'' then remove_reference_codes (dropWhile is_word cs)
      else c # remove_reference_codes cs)"
  by pat_completeness auto
termination
  by (relation "measure length") (auto simp: length_dropWhile_le less_Suc_eq_le)

text \<open>
  \<open>re.sub(r'\d{4,}', '', s)\<close>: a run of four or more digits is removed as a whole;
  shorter runs stay.
\<close>

function remove_long_numbers :: "string \<Rightarrow> string" where
  "remove_long_numbers [] = []"
| "remove_long_numbers (c # cs) =
     (if 4 \<le> length (takeWhile is_digit (c # cs))
      then remove_long_numbers (dropWhile is_digit cs)
      else c # remove_long_numbers cs)"
  by pat_completeness auto
termination
  by (relation "measure length") (auto simp: length_dropWhile_le less_Suc_eq_le)

section \<open>Regular expressions of the transaction patterns\<close>

text \<open>
  Every pattern of the parser is a sequence of repeated character classes. An item
  \<open>Rep cls lo hi greedy\<close> stands for \<open>cls{lo,hi}\<close> (no upper bound when \<open>hi\<close> is
  \<open>None\<close>), greedy or lazy (\<open>+?\<close>, \<open>*?\<close>). Matching follows the backtracking search
  of \<open>re\<close>: a greedy item tries its longest repetition first, a lazy one its shortest,
  and the first complete match found in that order is the result.
\<close>

datatype item = Rep "char \<Rightarrow> bool" nat "nat option" bool

text \<open>The repetition counts an item tries on input \<open>s\<close>, in the order it tries them.\<close>

fun counts :: "item \<Rightarrow> string \<Rightarrow> nat list" where
  "counts (Rep cls lo hi greedy) s =
     (let avail = length (takeWhile cls s);
          top = (case hi of None \<Rightarrow> avail | Some h \<Rightarrow> min h avail);
          up = [lo..<Suc top]
      in if greedy then rev up else up)"

fun first_some :: "'a option list \<Rightarrow> 'a option" where
  "first_some [] = None"
| "first_some (None # xs) = first_some xs"
| "first_some (Some x # xs) = Some x"

text \<open>
  \<open>match_here its s\<close>: match the items at the start of \<open>s\<close>; the result lists the text
  consumed by each item.
\<close>

fun match_here :: "item list \<Rightarrow> string \<Rightarrow> string list option" where
  "match_here [] s = Some []"
| "match_here (it # its) s =
     first_some (map (\<lambda>k. case match_here its (drop k s) of
                              None \<Rightarrow> None
                            | Some segs \<Rightarrow> Some (take k s # segs))
                     (counts it s))"

text \<open>\<open>re.search\<close>: the leftmost start position at which the items match.\<close>

definition re_search :: "item list \<Rightarrow> string \<Rightarrow> string list option" where
  "re_search its s = first_some (map (\<lambda>i. match_here its (drop i s)) [0..<Suc (length s)])"

text \<open>
  A pattern tags each item with the capture group it belongs to (0: none);
  \<open>group_text\<close> is \<open>match.groups()[g - 1]\<close>.
\<close>

type_synonym pattern_items = "(nat \<times> item) list"

definition group_text :: "pattern_items \<Rightarrow> string list \<Rightarrow> nat \<Rightarrow> string" where
  "group_text p segs g = concat (map snd (filter (\<lambda>(h, seg). h = g) (zip (map fst p) segs)))"

definition rep_one :: "(char \<Rightarrow> bool) \<Rightarrow> item" where
  "rep_one cls = Rep cls 1 (Some 1) True"

definition rep_opt :: "(char \<Rightarrow> bool) \<Rightarrow> item" where
  "rep_opt cls = Rep cls 0 (Some 1) True"

definition rep_plus :: "(char \<Rightarrow> bool) \<Rightarrow> item" where
  "rep_plus cls = Rep cls 1 None True"

definition rep_star :: "(char \<Rightarrow> bool) \<Rightarrow> item" where
  "rep_star cls = Rep cls 0 None True"

definition chr_is :: "char \<Rightarrow> char \<Rightarrow> bool" where
  "chr_is a c = (c = a)"

text \<open>\<open>[\d,]\<close>\<close>

definition digit_or_comma :: "char \<Rightarrow> bool" where
  "digit_or_comma c = (is_digit c \<or> c = CHR '','')"

text \<open>\<open>[-+]\<close>\<close>

definition sign_char :: "char \<Rightarrow> bool" where
  "sign_char c = (c = CHR ''-'' \<or> c = CHR ''+'')"

text \<open>\<open>[^-+$\d]\<close>\<close>

definition desc_char_signed :: "char \<Rightarrow> bool" where
  "desc_char_signed c = (\<not> (c = CHR ''-'' \<or> c = CHR ''+'' \<or> c = CHR ''$'' \<or> is_digit c))"

text \<open>\<open>[^$\d]\<close>\<close>

definition desc_char_plain :: "char \<Rightarrow> bool" where
  "desc_char_plain c = (\<not> (c = CHR ''$'' \<or> is_digit c))"

text \<open>\<open>(\d{1,2}SEP\d{1,2}SEP\d{4})\<close> as group 1.\<close>

definition date_items :: "char \<Rightarrow> pattern_items" where
  "date_items sep =
     [(1, Rep is_digit 1 (Some 2) True), (1, rep_one (chr_is sep)),
      (1, Rep is_digit 1 (Some 2) True), (1, rep_one (chr_is sep)),
      (1, Rep is_digit 4 (Some 4) True)]"

text \<open>\<open>[\d,]+\.?\d*\<close> inside group \<open>g\<close>.\<close>

definition number_items :: "nat \<Rightarrow> pattern_items" where
  "number_items g = [(g, rep_plus digit_or_comma), (g, rep_opt (chr_is CHR ''.'')), (g, rep_star is_digit)]"

text \<open>
  Pattern 1:
  \<^verbatim>\<open>(\d{1,2}/\d{1,2}/\d{4})\s+([^-+$\d]+?)\s+([-+]?\$?[\d,]+\.?\d*)\s+\$?([\d,]+\.?\d*)\<close>
\<close>

definition chase_regex :: pattern_items where
  "chase_regex =
     date_items CHR ''/'' @ [(0, rep_plus is_space), (2, Rep desc_char_signed 1 None False),
       (0, rep_plus is_space), (3, rep_opt sign_char), (3, rep_opt (chr_is CHR ''$''))]
     @ number_items 3 @ [(0, rep_plus is_space), (0, rep_opt (chr_is CHR ''$''))] @ number_items 4"

text \<open>
  Pattern 2:
  \<^verbatim>\<open>(\d{1,2}-\d{1,2}-\d{4})\s+([^$\d]+?)\s+\$?([\d,]+\.?\d*)\s+\$?([\d,]+\.?\d*)\<close>
\<close>

definition wells_fargo_regex :: pattern_items where
  "wells_fargo_regex =
     date_items CHR ''-'' @ [(0, rep_plus is_space), (2, Rep desc_char_plain 1 None False),
       (0, rep_plus is_space), (0, rep_opt (chr_is CHR ''$''))]
     @ number_items 3 @ [(0, rep_plus is_space), (0, rep_opt (chr_is CHR ''$''))] @ number_items 4"

text \<open>
  Pattern 3:
  \<^verbatim>\<open>(\d{1,2}/\d{1,2}/\d{4})\s+([A-Za-z][^-+$\d]*?)\s+([-+]?\$?[\d,]+\.?\d*)\s+\$?([\d,]+\.?\d*)\<close>
\<close>

definition generic_regex :: pattern_items where
  "generic_regex =
     date_items CHR ''/'' @ [(0, rep_plus is_space), (2, rep_one is_alpha),
       (2, Rep desc_char_signed 0 None False),
       (0, rep_plus is_space), (3, rep_opt sign_char), (3, rep_opt (chr_is CHR ''$''))]
     @ number_items 3 @ [(0, rep_plus is_space), (0, rep_opt (chr_is CHR ''$''))] @ number_items 4"

text \<open>The \<open>patterns\<close> list of \<open>_parse_single_transaction\<close>: regex and name, in order.\<close>

definition patterns :: "(pattern_items \<times> string) list" where
  "patterns = [(chase_regex, ''Chase Format''),
               (wells_fargo_regex, ''Wells Fargo Format''),
               (generic_regex, ''Generic Format'')]"

section \<open>Field parsers of the Transaction Parser\<close>

definition digit_val :: "char \<Rightarrow> nat" where
  "digit_val c = length (takeWhile (\<lambda>d. d \<noteq> c) ''0123456789'')"

definition digits_value :: "string \<Rightarrow> nat" where
  "digits_value ds = foldl (\<lambda>n c. 10 * n + digit_val c) 0 ds"

text \<open>
  \<open>float(s)\<close> on plain decimal notation: an optional sign, digits, and an optional
  fraction, with at least one digit; \<open>None\<close> stands for \<open>ValueError\<close>. This is the
  only notation that can reach \<open>float\<close> in the parser: the amount and balance tokens
  captured by the patterns consist of a sign, \<open>$\<close>, digits, commas and a dot.
\<close>

definition py_float :: "string \<Rightarrow> real option" where
  "py_float s =
     (let neg = startswith s ''-'';
          body = (if startswith s ''-'' \<or> startswith s ''+'' then drop 1 s else s);
          ip = takeWhile is_digit body;
          rest = dropWhile is_digit body;
          fp = drop 1 rest;
          well_formed = ((rest = [] \<or> (startswith rest ''.'' \<and> list_all is_digit fp))
                         \<and> (ip \<noteq> [] \<or> fp \<noteq> []));
          magnitude = real (digits_value ip) + real (digits_value fp) / 10 ^ length fp
      in if well_formed then Some (if neg then - magnitude else magnitude) else None)"

text \<open>\<open>_parse_amount\<close>: \<open>$\<close> and commas are removed; a failing \<open>float\<close> gives 0.0.\<close>

definition parse_amount :: "string \<Rightarrow> real" where
  "parse_amount amount_str =
     (let clean_amount = filter (\<lambda>c. c \<noteq> CHR ''$'' \<and> c \<noteq> CHR '','') amount_str
      in case py_float clean_amount of Some v \<Rightarrow> v | None \<Rightarrow> 0)"

definition debit_keywords :: "string list" where
  "debit_keywords = [''withdrawal'', ''purchase'', ''payment'', ''fee'', ''charge'']"

definition credit_keywords :: "string list" where
  "credit_keywords = [''deposit'', ''interest'', ''refund'', ''credit'', ''salary'']"

text \<open>\<open>_is_debit_transaction\<close>\<close>

definition is_debit_transaction :: "string \<Rightarrow> string \<Rightarrow> bool" where
  "is_debit_transaction amount_str line =
     (if startswith amount_str ''-'' \<or> startswith amount_str ''+''
      then startswith amount_str ''-''
      else let line_lower = lower line
           in if list_ex (\<lambda>keyword. py_in keyword line_lower) debit_keywords then True
              else if list_ex (\<lambda>keyword. py_in keyword line_lower) credit_keywords then False
              else True)"

subsection \<open>Dates\<close>

record pydate =
  year :: nat
  month :: nat
  day :: nat

text \<open>
  \<open>datetime.strptime\<close> turns a format into a regular expression, one alternation per
  directive, and takes the first match of \<open>re.match\<close>:
  \<open>%m\<close> is \<^verbatim>\<open>1[0-2]|0[1-9]|[1-9]\<close>,
  \<open>%d\<close> is \<^verbatim>\<open>3[0-1]|[1-2]\d|0[1-9]|[1-9]| [1-9]\<close>,
  \<open>%Y\<close> is \<^verbatim>\<open>\d\d\d\d\<close>, and \<open>%b\<close> is the abbreviated month names (of the C
  locale), matched without regard to case.
\<close>

datatype directive = Dir_m | Dir_d | Dir_Y | Dir_b | Lit char

text \<open>Match one character per class at the start of \<open>s\<close>: the matched text and the rest.\<close>

definition seq_match :: "(char \<Rightarrow> bool) list \<Rightarrow> string \<Rightarrow> (string \<times> string) list" where
  "seq_match clss s =
     (if length clss \<le> length s \<and> list_all2 (\<lambda>cls c. cls c) clss (take (length clss) s)
      then [(take (length clss) s, drop (length clss) s)] else [])"

definition one_of :: "string \<Rightarrow> char \<Rightarrow> bool" where
  "one_of cs c = (c \<in> set cs)"

definition month_abbr :: "string list" where
  "month_abbr = [''jan'', ''feb'', ''mar'', ''apr'', ''may'', ''jun'',
                 ''jul'', ''aug'', ''sep'', ''oct'', ''nov'', ''dec'']"

text \<open>
  The ways a directive matches at the start of \<open>s\<close>, in the order the regular expression
  tries them: the value read and the rest of the input.
\<close>

fun directive_matches :: "directive \<Rightarrow> string \<Rightarrow> (nat \<times> string) list" where
  "directive_matches Dir_m s =
     map (\<lambda>(t, r). (digits_value t, r))
       (seq_match [chr_is CHR ''1'', one_of ''012''] s @
        seq_match [chr_is CHR ''0'', one_of ''123456789''] s @
        seq_match [one_of ''123456789''] s)"
| "directive_matches Dir_d s =
     map (\<lambda>(t, r). (digits_value (filter is_digit t), r))
       (seq_match [chr_is CHR ''3'', one_of ''01''] s @
        seq_match [one_of ''12'', is_digit] s @
        seq_match [chr_is CHR ''0'', one_of ''123456789''] s @
        seq_match [one_of ''123456789''] s @
        seq_match [chr_is CHR '' '', one_of ''123456789''] s)"
| "directive_matches Dir_Y s =
     map (\<lambda>(t, r). (digits_value t, r)) (seq_match [is_digit, is_digit, is_digit, is_digit] s)"
| "directive_matches Dir_b s =
     concat (map (\<lambda>i. if lower (take 3 s) = month_abbr ! i then [(Suc i, drop 3 s)] else [])
                 [0..<12])"
| "directive_matches (Lit c) s = map (\<lambda>(t, r). (0, r)) (seq_match [chr_is c] s)"

fun set_field :: "directive \<Rightarrow> nat \<Rightarrow> pydate \<Rightarrow> pydate" where
  "set_field Dir_m v dt = dt\<lparr>month := v\<rparr>"
| "set_field Dir_d v dt = dt\<lparr>day := v\<rparr>"
| "set_field Dir_Y v dt = dt\<lparr>year := v\<rparr>"
| "set_field Dir_b v dt = dt\<lparr>month := v\<rparr>"
| "set_field (Lit c) v dt = dt"

text \<open>All matches of a format at the start of \<open>s\<close>, in backtracking order.\<close>

fun format_matches :: "directive list \<Rightarrow> string \<Rightarrow> pydate \<Rightarrow> (pydate \<times> string) list" where
  "format_matches [] s dt = [(dt, s)]"
| "format_matches (d # ds) s dt =
     concat (map (\<lambda>(v, r). format_matches ds r (set_field d v dt)) (directive_matches d s))"

definition is_leap :: "nat \<Rightarrow> bool" where
  "is_leap y = (y mod 4 = 0 \<and> (y mod 100 \<noteq> 0 \<or> y mod 400 = 0))"

definition days_in_month :: "nat \<Rightarrow> nat \<Rightarrow> nat" where
  "days_in_month y m =
     (if m = 2 then (if is_leap y then 29 else 28)
      else if m \<in> {4, 6, 9, 11} then 30 else 31)"

text \<open>The range check of the \<open>datetime\<close> constructor.\<close>

definition valid_date :: "pydate \<Rightarrow> bool" where
  "valid_date dt =
     (1 \<le> year dt \<and> year dt \<le> 9999 \<and> 1 \<le> month dt \<and> month dt \<le> 12 \<and>
      1 \<le> day dt \<and> day dt \<le> days_in_month (year dt) (month dt))"

text \<open>
  \<open>datetime.strptime(s, fmt)\<close>; \<open>None\<close> stands for \<open>ValueError\<close>: no match, unconverted
  data after the first match, or a date out of range.
\<close>

definition strptime :: "string \<Rightarrow> directive list \<Rightarrow> pydate option" where
  "strptime s fmt =
     (case format_matches fmt s \<lparr>year = 1900, month = 1, day = 1\<rparr> of
        [] \<Rightarrow> None
      | (dt, rest) # _ \<Rightarrow> if rest = [] \<and> valid_date dt then Some dt else None)"

text \<open>\<open>'%m/%d/%Y'\<close>, \<open>'%m-%d-%Y'\<close>, \<open>'%Y-%m-%d'\<close>, \<open>'%d-%b-%Y'\<close>\<close>

definition date_formats :: "directive list list" where
  "date_formats =
     [[Dir_m, Lit CHR ''/'', Dir_d, Lit CHR ''/'', Dir_Y],
      [Dir_m, Lit CHR ''-'', Dir_d, Lit CHR ''-'', Dir_Y],
      [Dir_Y, Lit CHR ''-'', Dir_m, Lit CHR ''-'', Dir_d],
      [Dir_d, Lit CHR ''-'', Dir_b, Lit CHR ''-'', Dir_Y]]"

text \<open>The loop of \<open>_parse_date\<close>: the first format that parses \<open>date_str\<close>.\<close>

definition try_date_formats :: "string \<Rightarrow> pydate option" where
  "try_date_formats date_str = first_some (map (strptime date_str) date_formats)"

text \<open>\<open>_parse_date\<close>; \<open>now\<close> is the value of \<open>datetime.now()\<close>.\<close>

definition parse_date :: "pydate \<Rightarrow> string \<Rightarrow> pydate" where
  "parse_date now date_str =
     (case try_date_formats date_str of Some dt \<Rightarrow> dt | None \<Rightarrow> now)"

fun str_of_nat :: "nat \<Rightarrow> string" where
  "str_of_nat n =
     (if n < 10 then [''0123456789'' ! n]
      else str_of_nat (n div 10) @ [''0123456789'' ! (n mod 10)])"

declare str_of_nat.simps [simp del]

definition zero_pad :: "nat \<Rightarrow> string \<Rightarrow> string" where
  "zero_pad w s = replicate (w - length s) CHR ''0'' @ s"

text \<open>
  \<open>dt.strftime('%Y-%m-%d')\<close>. The interpreter hands the format to the \<open>strftime\<close> of
  the C library. Month and day are written in two digits; the year is written as the C
  library of GNU/Linux writes \<open>%Y\<close>, in decimal without padding, so a year below 1000
  has fewer than four digits.
\<close>

definition strftime_Ymd :: "pydate \<Rightarrow> string" where
  "strftime_Ymd dt =
     str_of_nat (year dt) @ ''-'' @ zero_pad 2 (str_of_nat (month dt))
     @ ''-'' @ zero_pad 2 (str_of_nat (day dt))"

section \<open>Transactions\<close>

text \<open>
  The transaction dictionary. \<open>transaction_id\<close> and \<open>reasoning\<close> are keys added after
  the parser has built the dictionary: \<open>None\<close> is the absent key.
\<close>

record transaction =
  date :: string
  description :: string
  amount :: real
  is_debit :: bool
  balance :: real
  category :: string
  confidence :: real
  source :: string
  original_line :: string
  pattern_used :: string
  transaction_id :: "string option"
  reasoning :: "string option"

text \<open>
  \<open>_extract_transaction_data\<close>, given the pattern, its name and the texts the match
  consumed. Every pattern defines the balance group 4.
\<close>

definition extract_transaction_data ::
    "pydate \<Rightarrow> pattern_items \<Rightarrow> string \<Rightarrow> string list \<Rightarrow> string \<Rightarrow> transaction" where
  "extract_transaction_data now p name segs line =
     (let date_str = group_text p segs 1;
          parsed_date = parse_date now date_str;
          description0 = strip (group_text p segs 2);
          description1 = collapse_spaces description0;
          description2 = remove_reference_codes description1;
          description3 = strip description2;
          amount_str = group_text p segs 3;
          amount0 = parse_amount amount_str;
          is_debit0 = is_debit_transaction amount_str line;
          balance_str = group_text p segs 4;
          balance0 = parse_amount balance_str
      in \<lparr>date = strftime_Ymd parsed_date,
          description = description3,
          amount = \<bar>amount0\<bar>,
          is_debit = is_debit0,
          balance = balance0,
          category = ''uncategorized'',
          confidence = 0,
          source = ''deterministic'',
          original_line = line,
          pattern_used = name,
          transaction_id = None,
          reasoning = None\<rparr>)"

text \<open>
  The loop of \<open>_parse_single_transaction\<close> over the patterns. The extraction raises
  nothing (its field parsers recover from their own failures), so the first pattern
  that matches gives the result.
\<close>

fun try_patterns :: "pydate \<Rightarrow> (pattern_items \<times> string) list \<Rightarrow> string \<Rightarrow> transaction option" where
  "try_patterns now [] line = None"
| "try_patterns now ((p, name) # ps) line =
     (case re_search (map snd p) line of
        Some segs \<Rightarrow> Some (extract_transaction_data now p name segs line)
      | None \<Rightarrow> try_patterns now ps line)"

definition parse_single_transaction :: "pydate \<Rightarrow> string \<Rightarrow> transaction option" where
  "parse_single_transaction now line = try_patterns now patterns line"

text \<open>
  \<open>_parse_transaction_lines\<close>: lines that do not parse are dropped; a parsed line gets
  the next sequential identifier. \<open>parse_line_step\<close> is the body of its loop.
\<close>

definition parse_line_step :: "pydate \<Rightarrow> transaction list \<Rightarrow> string \<Rightarrow> transaction list" where
  "parse_line_step now parsed_transactions line =
     (case parse_single_transaction now line of
        Some parsed \<Rightarrow>
          parsed_transactions @
            [parsed\<lparr>transaction_id :=
               Some (''txn_'' @ str_of_nat (length parsed_transactions + 1))\<rparr>]
      | None \<Rightarrow> parsed_transactions)"

definition parse_transaction_lines :: "pydate \<Rightarrow> string list \<Rightarrow> transaction list" where
  "parse_transaction_lines now transaction_lines =
     foldl (parse_line_step now) [] transaction_lines"

section \<open>Merchant Categorizer\<close>

text \<open>\<open>merchant_keywords\<close>: the categories in insertion order, each with its keywords.\<close>

definition merchant_keywords :: "(string \<times> string list) list" where
  "merchant_keywords =
    [(''food_dining'',
       [''starbucks'', ''dunkin'', ''dunkin donuts'', ''coffee'', ''cafe'',
        ''mcdonalds'', ''burger king'', ''subway'', ''kfc'', ''taco bell'',
        ''chipotle'', ''panera'', ''panda express'', ''pizza hut'', ''dominos'',
        ''restaurant'', ''bistro'', ''grill'', ''kitchen'', ''diner'', ''eatery'',
        ''food truck'', ''catering'', ''bakery'',
        ''uber eats'', ''doordash'', ''grubhub'', ''postmates'', ''food delivery'']),
     (''groceries'',
       [''walmart'', ''target'', ''costco'', ''sams club'', ''sam's club'',
        ''kroger'', ''safeway'', ''publix'', ''wegmans'', ''giant'', ''stop shop'',
        ''whole foods'', ''trader joe'', ''aldi'', ''food lion'', ''harris teeter'',
        ''market'', ''grocery'', ''supermarket'', ''supercenter'', ''food store'']),
     (''transportation'',
       [''shell'', ''exxon'', ''chevron'', ''bp'', ''mobil'', ''citgo'', ''arco'',
        ''gas station'', ''fuel'', ''gasoline'', ''petrol'',
        ''uber'', ''lyft'', ''taxi'', ''cab'', ''rideshare'',
        ''metro'', ''mta'', ''transit'', ''bus'', ''train'', ''subway'',
        ''parking'', ''garage'', ''meter'',
        ''airline'', ''airport'', ''flight'', ''car rental'', ''hertz'', ''enterprise'']),
     (''shopping'',
       [''amazon'', ''ebay'', ''etsy'', ''best buy'', ''apple store'', ''microsoft'',
        ''home depot'', ''lowes'', ''macys'', ''kohls'', ''tj maxx'', ''marshalls'',
        ''ross'', ''old navy'', ''gap'', ''nike'', ''adidas'', ''mall'', ''outlet'']),
     (''bills_utilities'',
       [''electric'', ''power'', ''energy'', ''utility'', ''water'', ''sewer'',
        ''gas bill'', ''internet'', ''cable'', ''phone'', ''wireless'',
        ''verizon'', ''att'', ''at&t'', ''comcast'', ''spectrum'', ''xfinity'',
        ''municipal'', ''city of'', ''county of'']),
     (''entertainment'',
       [''netflix'', ''spotify'', ''hulu'', ''disney'', ''amazon prime'',
        ''apple music'', ''youtube'', ''gaming'', ''steam'', ''playstation'',
        ''xbox'', ''nintendo'', ''movie'', ''theater'', ''cinema'', ''concert'']),
     (''healthcare'',
       [''cvs'', ''walgreens'', ''rite aid'', ''pharmacy'', ''medical'',
        ''doctor'', ''dentist'', ''hospital'', ''clinic'', ''health'']),
     (''atm_cash'',
       [''atm'', ''withdrawal'', ''cash advance'', ''cash back'', ''cashout'']),
     (''income'',
       [''direct deposit'', ''salary'', ''payroll'', ''interest'', ''dividend'',
        ''refund'', ''tax refund'', ''deposit'', ''credit'']),
     (''fees'',
       [''fee'', ''charge'', ''penalty'', ''overdraft'', ''maintenance'',
        ''service charge'', ''foreign'', ''atm fee''])]"

text \<open>\<open>_clean_description_for_matching\<close>\<close>

definition clean_description_for_matching :: "string \<Rightarrow> string" where
  "clean_description_for_matching description0 =
     strip (collapse_spaces (remove_long_numbers (remove_reference_codes description0)))"

text \<open>\<open>_calculate_confidence\<close>; the description plays no part in the result.\<close>

definition calculate_confidence :: "string \<Rightarrow> string \<Rightarrow> real" where
  "calculate_confidence matched_keyword description0 =
     (if matched_keyword \<in> set [''starbucks'', ''walmart'', ''amazon'', ''netflix''] then 0.95
      else if matched_keyword \<in> set [''gas station'', ''grocery'', ''pharmacy''] then 0.90
      else if matched_keyword \<in> set [''restaurant'', ''cafe'', ''market''] then 0.75
      else 0.80)"

text \<open>The inner loop of \<open>categorize_transaction\<close>: the first keyword found in the text.\<close>

fun first_keyword :: "string list \<Rightarrow> string \<Rightarrow> string option" where
  "first_keyword [] desc_clean = None"
| "first_keyword (keyword # keywords) desc_clean =
     (if py_in keyword desc_clean then Some keyword else first_keyword keywords desc_clean)"

text \<open>The outer loop over the categories.\<close>

fun scan_categories :: "(string \<times> string list) list \<Rightarrow> string \<Rightarrow> string \<times> real" where
  "scan_categories [] desc_clean = (''uncategorized'', 0)"
| "scan_categories ((category0, keywords) # rest) desc_clean =
     (case first_keyword keywords desc_clean of
        Some keyword \<Rightarrow> (category0, calculate_confidence keyword desc_clean)
      | None \<Rightarrow> scan_categories rest desc_clean)"

definition desc_clean_of :: "string \<Rightarrow> string" where
  "desc_clean_of description0 = clean_description_for_matching (strip (lower description0))"

text \<open>\<open>MerchantDatabase.categorize_transaction\<close>\<close>

definition categorize_transaction :: "string \<Rightarrow> string \<times> real" where
  "categorize_transaction description0 = scan_categories merchant_keywords (desc_clean_of description0)"

text \<open>\<open>_apply_basic_categorization\<close>\<close>

definition apply_basic_categorization :: "transaction list \<Rightarrow> transaction list" where
  "apply_basic_categorization transactions =
     map (\<lambda>txn. case categorize_transaction (description txn) of
                   (category0, confidence0) \<Rightarrow>
                     if category0 \<noteq> ''uncategorized''
                     then txn\<lparr>category := category0, confidence := confidence0,
                              source := ''deterministic''\<rparr>
                     else txn)
         transactions"

section \<open>Fallback Classifier\<close>

subsection \<open>The external call\<close>

text \<open>
  The value \<open>json.loads\<close> makes of a response text. An object is the list of its items
  (a Python dictionary: the keys are distinct). \<open>JNaN\<close>, \<open>JInfinity\<close> and
  \<open>JNegInfinity\<close> are the literals \<open>NaN\<close>, \<open>Infinity\<close> and \<open>-Infinity\<close>, which
  \<open>json.loads\<close> reads as floats.
\<close>

datatype json = JNull | JBool bool | JNum real | JNaN | JInfinity | JNegInfinity
  | JStr string | JArr "json list" | JObj "(string \<times> json) list"

text \<open>
  A response text is represented by what the classifier can see of it: whether it is
  empty, and what \<open>json.loads\<close> does with it.
\<close>

datatype response_text = EmptyText | NotJsonText | JsonText json

text \<open>
  What happens inside the \<open>try\<close> block of \<open>make_call\<close>: the request raises; or it
  returns a reply from which no text can be read (\<open>response.content[0].text\<close> raises);
  or the reply has a text.
\<close>

datatype api_result = ApiRaises | ApiUnreadable | ApiReturns response_text

text \<open>The entries of \<open>transaction_data\<close>, from which the prompt is written.\<close>

record txn_summary =
  summary_id :: string
  summary_description :: string
  summary_amount :: real
  summary_is_debit :: bool
  summary_date :: string

type_synonym client = "txn_summary list \<Rightarrow> api_result"

record llm_interface =
  call_count :: nat
  total_cost :: real

text \<open>
  \<open>LLMInterface.make_call\<close>: the call is counted first; the cost is added once the
  request has returned; every exception is caught and \<open>None\<close> is returned.
\<close>

definition make_call ::
    "client \<Rightarrow> txn_summary list \<Rightarrow> llm_interface \<Rightarrow> response_text option \<times> llm_interface" where
  "make_call api prompt llm =
     (let llm1 = llm\<lparr>call_count := call_count llm + 1\<rparr>
      in case api prompt of
           ApiRaises \<Rightarrow> (None, llm1)
         | ApiUnreadable \<Rightarrow> (None, llm1\<lparr>total_cost := total_cost llm1 + 0.002\<rparr>)
         | ApiReturns text \<Rightarrow> (Some text, llm1\<lparr>total_cost := total_cost llm1 + 0.002\<rparr>))"

subsection \<open>Validation of the response\<close>

text \<open>\<open>TransactionCategory\<close>\<close>

record transaction_category =
  cat_transaction_id :: string
  cat_category :: string
  cat_confidence :: real
  cat_reasoning :: string

text \<open>
  The validation library converts the value of a field to the type the field declares,
  and which values it converts depends on the library: besides a JSON string for a
  \<open>str\<close> field and a JSON number for a \<open>float\<close> field it may take others (a numeric
  string or a bool for a number, say). Its conversions are a parameter of the model:
  \<open>to_str\<close> for the fields declared \<open>str\<close> and \<open>to_float\<close> for the field declared
  \<open>float\<close>, with \<open>None\<close> where the library refuses the value. \<open>to_float\<close> is also
  \<open>None\<close> where the library converts to a float that is not finite: such a value fails
  \<open>ge=0\<close> or \<open>le=1\<close> in any case.
\<close>

record conversions =
  to_str :: "json \<Rightarrow> string option"
  to_float :: "json \<Rightarrow> real option"

text \<open>
  Validation of one entry against \<open>TransactionCategory\<close>: the entry is an object, the
  four keys are required, each value is converted to the type of its field, and the
  confidence is held to \<open>ge=0, le=1\<close>. Other keys are ignored. The category is a \<open>str\<close>
  field like the identifier and the reasoning.
\<close>

definition validate_entry :: "conversions \<Rightarrow> json \<Rightarrow> transaction_category option" where
  "validate_entry conv j =
     (case j of
        JObj items \<Rightarrow>
          (case (map_of items ''transaction_id'', map_of items ''category'',
                 map_of items ''confidence'', map_of items ''reasoning'') of
             (Some vi, Some vc, Some vx, Some vr) \<Rightarrow>
               (case (to_str conv vi, to_str conv vc, to_float conv vx, to_str conv vr) of
                  (Some i, Some c, Some x, Some r) \<Rightarrow>
                    if 0 \<le> x \<and> x \<le> 1
                    then Some \<lparr>cat_transaction_id = i, cat_category = c,
                               cat_confidence = x, cat_reasoning = r\<rparr>
                    else None
                | _ \<Rightarrow> None)
           | _ \<Rightarrow> None)
      | _ \<Rightarrow> None)"

text \<open>
  \<open>BatchCategorizationResponse(**json.loads(response))\<close>: the value must be an object
  whose \<open>categorizations\<close> is a list of valid entries; \<open>None\<close> stands for the exception
  raised otherwise.
\<close>

definition validate_response :: "conversions \<Rightarrow> json \<Rightarrow> transaction_category list option" where
  "validate_response conv j =
     (case j of
        JObj items \<Rightarrow>
          (case map_of items ''categorizations'' of
             Some (JArr entries) \<Rightarrow> those (map (validate_entry conv) entries)
           | _ \<Rightarrow> None)
      | _ \<Rightarrow> None)"

text \<open>The keys of \<open>valid_categories\<close>: the vocabulary written into the prompt.\<close>

definition valid_categories :: "string list" where
  "valid_categories =
     [''food_dining'', ''groceries'', ''transportation'', ''shopping'', ''bills_utilities'',
      ''entertainment'', ''healthcare'', ''income'', ''fees'', ''other'']"

subsection \<open>Applying the response\<close>

text \<open>
  The classifier assigns to the keys of each dictionary in place. The dictionaries of a
  batch are distinct objects (the parser builds a new one for every line), so the
  assignments are modelled as a map over the list of transactions.
\<close>

text \<open>\<open>f"txn_{i}"\<close>\<close>

definition txn_key :: "nat \<Rightarrow> string" where
  "txn_key i = ''txn_'' @ str_of_nat i"

text \<open>
  \<open>cat_lookup\<close>, the dictionary comprehension over the entries: a later entry replaces
  an earlier one with the same identifier.
\<close>

definition cat_lookup :: "transaction_category list \<Rightarrow> string \<Rightarrow> transaction_category option" where
  "cat_lookup categorizations =
     map_of (rev (map (\<lambda>cat. (cat_transaction_id cat, cat)) categorizations))"

definition apply_llm_entry :: "transaction_category list \<Rightarrow> nat \<times> transaction \<Rightarrow> transaction" where
  "apply_llm_entry categorizations = (\<lambda>(i, txn).
     case cat_lookup categorizations (txn_key i) of
       Some cat \<Rightarrow> txn\<lparr>category := cat_category cat, confidence := cat_confidence cat,
                        source := ''llm'', reasoning := Some (cat_reasoning cat)\<rparr>
     | None \<Rightarrow> txn\<lparr>category := ''other'', confidence := 0.5,
                    source := ''fallback'', reasoning := Some ''LLM response incomplete''\<rparr>)"

text \<open>\<open>_apply_llm_categorization\<close>\<close>

definition apply_llm_categorization ::
    "transaction list \<Rightarrow> transaction_category list \<Rightarrow> transaction list" where
  "apply_llm_categorization transactions categorizations =
     map (apply_llm_entry categorizations) (enumerate 0 transactions)"

definition fallback_txn :: "transaction \<Rightarrow> transaction" where
  "fallback_txn txn = txn\<lparr>category := ''other'', confidence := 0.3,
                          source := ''fallback'', reasoning := Some ''LLM unavailable''\<rparr>"

text \<open>\<open>_apply_fallback_categorization\<close>\<close>

definition apply_fallback_categorization :: "transaction list \<Rightarrow> transaction list" where
  "apply_fallback_categorization transactions = map fallback_txn transactions"

definition transaction_data :: "transaction list \<Rightarrow> txn_summary list" where
  "transaction_data transactions =
     map (\<lambda>(i, txn). \<lparr>summary_id = txn_key i, summary_description = description txn,
                       summary_amount = amount txn, summary_is_debit = is_debit txn,
                       summary_date = date txn\<rparr>)
         (enumerate 0 transactions)"

text \<open>
  What the \<open>try\<close> block of \<open>_batch_categorize_with_llm\<close> does with the value of
  \<open>make_call\<close>: a false value (\<open>None\<close> or the empty text) goes to the fallback, and so
  does every exception of \<open>json.loads\<close> or of the validation.
\<close>

definition handle_response ::
    "conversions \<Rightarrow> transaction list \<Rightarrow> response_text option \<Rightarrow> transaction list" where
  "handle_response conv transactions response =
     (case response of
        None \<Rightarrow> apply_fallback_categorization transactions
      | Some EmptyText \<Rightarrow> apply_fallback_categorization transactions
      | Some NotJsonText \<Rightarrow> apply_fallback_categorization transactions
      | Some (JsonText j) \<Rightarrow>
          (case validate_response conv j of
             None \<Rightarrow> apply_fallback_categorization transactions
           | Some categorizations \<Rightarrow> apply_llm_categorization transactions categorizations))"

text \<open>\<open>_batch_categorize_with_llm\<close>\<close>

definition batch_categorize_with_llm ::
    "conversions \<Rightarrow> client \<Rightarrow> llm_interface \<Rightarrow> transaction list
       \<Rightarrow> transaction list \<times> llm_interface" where
  "batch_categorize_with_llm conv api llm transactions =
     (case make_call api (transaction_data transactions) llm of
        (response, llm') \<Rightarrow> (handle_response conv transactions response, llm'))"

text \<open>The counter of \<open>BaseAgent\<close>.\<close>

record agent =
  llm_calls_made :: nat

definition needs_llm :: "transaction list \<Rightarrow> transaction list" where
  "needs_llm transactions = filter (\<lambda>t. category t = ''uncategorized'') transactions"

definition already_categorized :: "transaction list \<Rightarrow> transaction list" where
  "already_categorized transactions = filter (\<lambda>t. category t \<noteq> ''uncategorized'') transactions"

text \<open>
  \<open>ContentAnalyzerAgent.process\<close>: the result list, the agent and the interface after
  the run.
\<close>

definition process ::
    "conversions \<Rightarrow> client \<Rightarrow> agent \<Rightarrow> llm_interface \<Rightarrow> transaction list
       \<Rightarrow> transaction list \<times> agent \<times> llm_interface" where
  "process conv api ag llm transactions =
     (if needs_llm transactions = [] then (already_categorized transactions, ag, llm)
      else case batch_categorize_with_llm conv api llm (needs_llm transactions) of
             (llm_categorized, llm') \<Rightarrow>
               (already_categorized transactions @ llm_categorized,
                ag\<lparr>llm_calls_made := llm_calls_made ag + 1\<rparr>, llm'))"

section \<open>Notions used to state the properties\<close>

text \<open>
  The entry that the external response holds for the transaction at position \<open>i\<close> of the
  batch: the response is a text that parses and validates, and the entry is the last one
  under the identifier \<open>txn_i\<close>. There is none when the call fails, when the response
  is rejected, or when no entry has that identifier.
\<close>

definition response_entry :: "conversions \<Rightarrow> api_result \<Rightarrow> nat \<Rightarrow> transaction_category option" where
  "response_entry conv r i =
     (case r of
        ApiReturns (JsonText j) \<Rightarrow>
          (case validate_response conv j of
             Some cats \<Rightarrow> cat_lookup cats (txn_key i)
           | None \<Rightarrow> None)
      | _ \<Rightarrow> None)"

text \<open>The fields of a transaction that categorization is to leave alone.\<close>

definition frame_fields ::
    "transaction \<Rightarrow> string \<times> string \<times> real \<times> bool \<times> real \<times> string option \<times> string \<times> string" where
  "frame_fields t =
     (date t, description t, amount t, is_debit t, balance t, transaction_id t,
      original_line t, pattern_used t)"


text \<open>
  The entry \<open>c\<close> is read from the JSON value \<open>e\<close>: \<open>e\<close> is an object, its identifier,
  category and reasoning convert to the texts that \<open>c\<close> holds, and its confidence
  converts to the number that \<open>c\<close> holds, which lies between 0 and 1. Nothing more is
  asked of the category: the vocabulary plays no part.
\<close>

definition well_formed_entry :: "conversions \<Rightarrow> json \<Rightarrow> transaction_category \<Rightarrow> bool" where
  "well_formed_entry conv e c =
     (\<exists>kvs vi vc vx vr. e = JObj kvs \<and>
        map_of kvs ''transaction_id'' = Some vi \<and> to_str conv vi = Some (cat_transaction_id c) \<and>
        map_of kvs ''category'' = Some vc \<and> to_str conv vc = Some (cat_category c) \<and>
        map_of kvs ''confidence'' = Some vx \<and> to_float conv vx = Some (cat_confidence c) \<and>
        map_of kvs ''reasoning'' = Some vr \<and> to_str conv vr = Some (cat_reasoning c) \<and>
        0 \<le> cat_confidence c \<and> cat_confidence c \<le> 1)"


subsection \<open>The Merchant Categorizer as the specification words it\<close>

text \<open>
  Every keyword with its category, categories in their fixed order and keywords in their
  defined order.
\<close>

definition keyword_order :: "(string \<times> string) list" where
  "keyword_order = concat (map (\<lambda>(c, ks). map (\<lambda>k. (c, k)) ks) merchant_keywords)"

text \<open>The tiered confidence of a keyword.\<close>

definition confidence_tier :: "string \<Rightarrow> real" where
  "confidence_tier k =
     (if k \<in> {''starbucks'', ''walmart'', ''amazon'', ''netflix''} then 0.95
      else if k \<in> {''gas station'', ''grocery'', ''pharmacy''} then 0.90
      else if k \<in> {''restaurant'', ''cafe'', ''market''} then 0.75
      else 0.80)"

text \<open>
  The category of the first keyword that is a substring of the cleaned description, with
  its tier; \<open>uncategorized\<close> and 0.0 when there is none.
\<close>

definition first_match_categorize :: "string \<Rightarrow> string \<times> real" where
  "first_match_categorize d =
     (case find (\<lambda>(c, k). sublist k (desc_clean_of d)) keyword_order of
        None \<Rightarrow> (''uncategorized'', 0)
      | Some (c, k) \<Rightarrow> (c, confidence_tier k))"

subsection \<open>Example inputs\<close>

definition example_now :: pydate where
  "example_now = \<lparr>year = 2024, month = 6, day = 15\<rparr>"

definition example_txn :: transaction where
  "example_txn =
     \<lparr>date = ''2024-02-01'', description = ''ZELLE TRANSFER'', amount = 25,
      is_debit = True, balance = 100, category = ''uncategorized'', confidence = 0,
      source = ''deterministic'', original_line = ''02/01/2024 ZELLE TRANSFER -$25.00 $100.00'',
      pattern_used = ''Chase Format'', transaction_id = Some ''txn_1'', reasoning = None\<rparr>"

text \<open>
  A conversion table for the examples, after the lax mode of the validation library: a
  \<open>str\<close> field takes a JSON string; a \<open>float\<close> field takes a JSON number, \<open>true\<close> and
  \<open>false\<close> as 1 and 0, and a string that is a number in plain decimal notation. (The
  library reads further notations, which the examples do not use; the theorems hold
  for every table.)
\<close>

definition example_conversions :: conversions where
  "example_conversions =
     \<lparr>to_str = (\<lambda>v. case v of JStr s \<Rightarrow> Some s | _ \<Rightarrow> None),
      to_float = (\<lambda>v. case v of
                         JNum x \<Rightarrow> Some x
                       | JBool b \<Rightarrow> Some (if b then 1 else 0)
                       | JStr s \<Rightarrow> py_float (strip s)
                       | _ \<Rightarrow> None)\<rparr>"

text \<open>An entry of a response.\<close>

definition example_entry :: "string \<Rightarrow> string \<Rightarrow> json \<Rightarrow> json" where
  "example_entry i c x =
     JObj [(''transaction_id'', JStr i), (''category'', JStr c),
           (''confidence'', x), (''reasoning'', JStr ''guess'')]"

text \<open>A response with one entry, for the first transaction of the batch.\<close>

definition example_response :: "string \<Rightarrow> real \<Rightarrow> json" where
  "example_response c x = JObj [(''categorizations'', JArr [example_entry ''txn_0'' c (JNum x)])]"

text \<open>
  A response with an entry for the first transaction and an entry that says
  \<open>uncategorized\<close> under an identifier no transaction of a short batch has.
\<close>

definition example_response_stray :: json where
  "example_response_stray =
     JObj [(''categorizations'',
            JArr [example_entry ''txn_0'' ''fees'' (JNum 0.9),
                  example_entry ''txn_7'' ''uncategorized'' (JNum 0.9)])]"

text \<open>
  A response whose entry says \<open>uncategorized\<close> and gives its confidence as the string
  \<open>0.9\<close>.
\<close>

definition example_response_text_confidence :: json where
  "example_response_text_confidence =
     JObj [(''categorizations'', JArr [example_entry ''txn_0'' ''uncategorized'' (JStr ''0.9'')])]"

text \<open>A client that gives the same result whatever the prompt.\<close>

definition example_api :: "api_result \<Rightarrow> client" where
  "example_api r = (\<lambda>prompt. r)"

definition example_agent :: agent where
  "example_agent = \<lparr>llm_calls_made = 0\<rparr>"

definition example_llm :: llm_interface where
  "example_llm = \<lparr>call_count = 0, total_cost = 0\<rparr>"

section \<open>Properties of the Fallback Classifier\<close>

subsection \<open>Calls\<close>

lemma filter_none_keeps_all: "filter P xs = [] \<Longrightarrow> filter (\<lambda>x. \<not> P x) xs = xs"
  by (induction xs) (auto split: if_splits)

lemma already_categorized_all:
  "needs_llm txs = [] \<Longrightarrow> already_categorized txs = txs"
  unfolding needs_llm_def already_categorized_def by (rule filter_none_keeps_all)

lemma make_call_counts: "call_count (snd (make_call api prompt llm)) = call_count llm + 1"
  by (simp add: make_call_def Let_def split: api_result.splits)

lemma batch_unfold:
  "batch_categorize_with_llm conv api llm batch =
     (handle_response conv batch (fst (make_call api (transaction_data batch) llm)),
      snd (make_call api (transaction_data batch) llm))"
  by (simp add: batch_categorize_with_llm_def split: prod.splits)

lemma batch_call_count:
  "call_count (snd (batch_categorize_with_llm conv api llm batch)) = call_count llm + 1"
  by (simp add: batch_unfold make_call_counts)

lemma fst_batch:
  "fst (batch_categorize_with_llm conv api llm batch) =
     handle_response conv batch (fst (make_call api (transaction_data batch) llm))"
  by (simp add: batch_unfold)

lemma fst_make_call:
  "fst (make_call api prompt llm) =
     (case api prompt of ApiRaises \<Rightarrow> None | ApiUnreadable \<Rightarrow> None
      | ApiReturns text \<Rightarrow> Some text)"
  by (simp add: make_call_def Let_def split: api_result.splits)

lemma process_empty:
  "needs_llm txs = [] \<Longrightarrow> process conv api ag llm txs = (txs, ag, llm)"
  by (simp add: process_def already_categorized_all)

lemma process_nonempty:
  "needs_llm txs \<noteq> [] \<Longrightarrow>
     process conv api ag llm txs =
       (already_categorized txs @ fst (batch_categorize_with_llm conv api llm (needs_llm txs)),
        ag\<lparr>llm_calls_made := llm_calls_made ag + 1\<rparr>,
        snd (batch_categorize_with_llm conv api llm (needs_llm txs)))"
  by (simp add: process_def split: prod.splits)

text \<open>
  Claim C1. When the batch holds no uncategorized transaction, \<open>process\<close> makes no call
  (the interface and the agent's counter are returned as they were) and returns the
  batch unchanged. When it holds at least one, the interface counts exactly one more
  call and the agent exactly one more, whatever the client does, failure included.
\<close>

theorem process_call_count:
  "(needs_llm txs = [] \<longrightarrow> process conv api ag llm txs = (txs, ag, llm)) \<and>
   (needs_llm txs \<noteq> [] \<longrightarrow>
      call_count (snd (snd (process conv api ag llm txs))) = call_count llm + 1 \<and>
      llm_calls_made (fst (snd (process conv api ag llm txs))) = llm_calls_made ag + 1)"
  by (simp add: process_empty process_nonempty batch_call_count)

lemma example_needs: "needs_llm [example_txn] = [example_txn]"
  by (simp add: needs_llm_def example_txn_def)

lemma example_already: "already_categorized [example_txn] = []"
  by (simp add: already_categorized_def example_txn_def)

theorem process_call_count_witness:
  "needs_llm [example_txn] = [example_txn] \<and>
   call_count (snd (snd (process example_conversions (example_api ApiRaises) example_agent
      example_llm [example_txn]))) = 1 \<and>
   llm_calls_made (fst (snd (process example_conversions (example_api ApiRaises) example_agent
      example_llm [example_txn]))) = 1 \<and>
   needs_llm [example_txn\<lparr>category := ''fees''\<rparr>] = [] \<and>
   process example_conversions (example_api ApiRaises) example_agent example_llm
       [example_txn\<lparr>category := ''fees''\<rparr>]
     = ([example_txn\<lparr>category := ''fees''\<rparr>], example_agent, example_llm)"
proof -
  have n: "needs_llm [example_txn\<lparr>category := ''fees''\<rparr>] = []"
    by (simp add: needs_llm_def)
  show ?thesis
    using process_call_count [of "[example_txn]" example_conversions "example_api ApiRaises"
        example_agent example_llm]
      process_call_count [of "[example_txn\<lparr>category := ''fees''\<rparr>]" example_conversions
        "example_api ApiRaises" example_agent example_llm] n
    by (simp add: example_needs example_agent_def example_llm_def)
qed

subsection \<open>Failure of the external call\<close>

lemma fallback_fields:
  "t \<in> set (apply_fallback_categorization batch) \<Longrightarrow>
     category t = ''other'' \<and> confidence t = 0.3 \<and> source t = ''fallback''"
  by (auto simp: apply_fallback_categorization_def fallback_txn_def)

lemma failed_call_handled:
  assumes "api (transaction_data batch) = ApiRaises \<or>
     api (transaction_data batch) = ApiUnreadable \<or>
     api (transaction_data batch) = ApiReturns EmptyText \<or>
     api (transaction_data batch) = ApiReturns NotJsonText \<or>
     (\<exists>j. api (transaction_data batch) = ApiReturns (JsonText j) \<and>
          validate_response conv j = None)"
  shows "fst (batch_categorize_with_llm conv api llm batch) = apply_fallback_categorization batch"
  using assms by (auto simp: fst_batch fst_make_call handle_response_def)

lemma cat_lookup_absent:
  "key \<notin> cat_transaction_id ` set cats \<Longrightarrow> cat_lookup cats key = None"
  by (simp add: cat_lookup_def map_of_eq_None_iff image_image)

lemma llm_result_nth:
  "i < length batch \<Longrightarrow>
     apply_llm_categorization batch cats ! i = apply_llm_entry cats (i, batch ! i)"
  by (simp add: apply_llm_categorization_def nth_enumerate_eq)

lemma length_handle_response: "length (handle_response conv batch r) = length batch"
  by (simp add: handle_response_def apply_fallback_categorization_def
      apply_llm_categorization_def split: option.splits response_text.splits)

text \<open>
  Claim C4. When the request raises, or its reply has no readable text, or the text is
  empty, is not JSON, or is JSON that fails validation, the classifier still returns a
  result of the length of the batch, and every transaction in it has category
  \<open>other\<close>, confidence 0.3 and source \<open>fallback\<close>. When the response validates, a
  transaction whose identifier \<open>txn_i\<close> is not among the entries gets category
  \<open>other\<close>, confidence 0.5 and source \<open>fallback\<close>. What fails validation is decided
  with the conversions of the validation library, whatever they are.
\<close>

theorem failure_gives_fallback:
  "((api (transaction_data batch) = ApiRaises \<or>
     api (transaction_data batch) = ApiUnreadable \<or>
     api (transaction_data batch) = ApiReturns EmptyText \<or>
     api (transaction_data batch) = ApiReturns NotJsonText \<or>
     (\<exists>j. api (transaction_data batch) = ApiReturns (JsonText j) \<and>
          validate_response conv j = None))
    \<longrightarrow> length (fst (batch_categorize_with_llm conv api llm batch)) = length batch \<and>
        (\<forall>t \<in> set (fst (batch_categorize_with_llm conv api llm batch)).
           category t = ''other'' \<and> confidence t = 0.3 \<and> source t = ''fallback'')) \<and>
   (api (transaction_data batch) = ApiReturns (JsonText j) \<and>
    validate_response conv j = Some cats \<and>
    i < length batch \<and> txn_key i \<notin> cat_transaction_id ` set cats
    \<longrightarrow> length (fst (batch_categorize_with_llm conv api llm batch)) = length batch \<and>
        category (fst (batch_categorize_with_llm conv api llm batch) ! i) = ''other'' \<and>
        confidence (fst (batch_categorize_with_llm conv api llm batch) ! i) = 0.5 \<and>
        source (fst (batch_categorize_with_llm conv api llm batch) ! i) = ''fallback'')"
proof (intro conjI impI)
  assume f: "api (transaction_data batch) = ApiRaises \<or>
     api (transaction_data batch) = ApiUnreadable \<or>
     api (transaction_data batch) = ApiReturns EmptyText \<or>
     api (transaction_data batch) = ApiReturns NotJsonText \<or>
     (\<exists>j. api (transaction_data batch) = ApiReturns (JsonText j) \<and>
          validate_response conv j = None)"
  have eq: "fst (batch_categorize_with_llm conv api llm batch) = apply_fallback_categorization batch"
    using f by (rule failed_call_handled)
  show "length (fst (batch_categorize_with_llm conv api llm batch)) = length batch"
    by (simp add: fst_batch length_handle_response)
  show "\<forall>t \<in> set (fst (batch_categorize_with_llm conv api llm batch)).
           category t = ''other'' \<and> confidence t = 0.3 \<and> source t = ''fallback''"
    unfolding eq using fallback_fields by blast
next
  assume v: "api (transaction_data batch) = ApiReturns (JsonText j) \<and>
    validate_response conv j = Some cats \<and> i < length batch \<and>
    txn_key i \<notin> cat_transaction_id ` set cats"
  then have eq: "fst (batch_categorize_with_llm conv api llm batch)
      = apply_llm_categorization batch cats"
    by (simp add: fst_batch fst_make_call handle_response_def)
  have entry: "apply_llm_categorization batch cats ! i =
      (batch ! i)\<lparr>category := ''other'', confidence := 0.5, source := ''fallback'',
                   reasoning := Some ''LLM response incomplete''\<rparr>"
    using v by (simp add: llm_result_nth apply_llm_entry_def cat_lookup_absent)
  show "length (fst (batch_categorize_with_llm conv api llm batch)) = length batch"
    by (simp add: fst_batch length_handle_response)
  show "category (fst (batch_categorize_with_llm conv api llm batch) ! i) = ''other''"
    by (simp add: eq entry)
  show "confidence (fst (batch_categorize_with_llm conv api llm batch) ! i) = 0.5"
    by (simp add: eq entry)
  show "source (fst (batch_categorize_with_llm conv api llm batch) ! i) = ''fallback''"
    by (simp add: eq entry)
qed

lemma example_entry_valid:
  "0 \<le> x \<Longrightarrow> x \<le> 1 \<Longrightarrow>
     validate_entry example_conversions (example_entry i c (JNum x)) =
       Some \<lparr>cat_transaction_id = i, cat_category = c, cat_confidence = x,
             cat_reasoning = ''guess''\<rparr>"
  by (simp add: validate_entry_def example_entry_def example_conversions_def)

lemma example_response_valid:
  "0 \<le> x \<Longrightarrow> x \<le> 1 \<Longrightarrow>
     validate_response example_conversions (example_response c x) =
       Some [\<lparr>cat_transaction_id = ''txn_0'', cat_category = c, cat_confidence = x,
              cat_reasoning = ''guess''\<rparr>]"
  by (simp add: validate_response_def example_response_def example_entry_valid)

lemma example_response_invalid:
  "validate_response example_conversions (example_response c 1.5) = None"
  by (simp add: validate_response_def example_response_def validate_entry_def
      example_entry_def example_conversions_def)

lemma singleton_fallback:
  assumes "length xs = 1"
    and "\<forall>t \<in> set xs. category t = c \<and> confidence t = x \<and> source t = s"
  shows "map (\<lambda>t. (category t, confidence t, source t)) xs = [(c, x, s)]"
proof -
  from assms(1) obtain t where "xs = [t]" by (auto simp: length_Suc_conv)
  with assms(2) show ?thesis by simp
qed

theorem failure_gives_fallback_witness:
  "example_api ApiRaises (transaction_data [example_txn]) = ApiRaises \<and>
   map (\<lambda>t. (category t, confidence t, source t))
       (fst (batch_categorize_with_llm example_conversions (example_api ApiRaises) example_llm
              [example_txn]))
     = [(''other'', 0.3, ''fallback'')] \<and>
   validate_response example_conversions (example_response ''fees'' 1.5) = None \<and>
   map (\<lambda>t. (category t, confidence t, source t))
       (fst (batch_categorize_with_llm example_conversions
              (example_api (ApiReturns (JsonText (example_response ''fees'' 1.5)))) example_llm
              [example_txn]))
     = [(''other'', 0.3, ''fallback'')] \<and>
   validate_response example_conversions (example_response ''fees'' 0.9) =
     Some [\<lparr>cat_transaction_id = ''txn_0'', cat_category = ''fees'', cat_confidence = 0.9,
            cat_reasoning = ''guess''\<rparr>] \<and>
   category (fst (batch_categorize_with_llm example_conversions
       (example_api (ApiReturns (JsonText (example_response ''fees'' 0.9)))) example_llm
       [example_txn, example_txn]) ! 1) = ''other'' \<and>
   confidence (fst (batch_categorize_with_llm example_conversions
       (example_api (ApiReturns (JsonText (example_response ''fees'' 0.9)))) example_llm
       [example_txn, example_txn]) ! 1) = 0.5 \<and>
   source (fst (batch_categorize_with_llm example_conversions
       (example_api (ApiReturns (JsonText (example_response ''fees'' 0.9)))) example_llm
       [example_txn, example_txn]) ! 1) = ''fallback''"
proof -
  let ?bad = "example_api (ApiReturns (JsonText (example_response ''fees'' 1.5)))"
  let ?ok = "example_api (ApiReturns (JsonText (example_response ''fees'' 0.9)))"
  let ?cats = "[\<lparr>cat_transaction_id = ''txn_0'', cat_category = ''fees'', cat_confidence = 0.9,
            cat_reasoning = ''guess''\<rparr>]"
  have r: "example_api ApiRaises (transaction_data [example_txn]) = ApiRaises"
    by (simp add: example_api_def)
  have v: "validate_response example_conversions (example_response ''fees'' 0.9) = Some ?cats"
    by (simp add: example_response_valid)
  have u: "validate_response example_conversions (example_response ''fees'' 1.5) = None"
    by (rule example_response_invalid)
  have k: "txn_key 1 \<notin> cat_transaction_id ` set ?cats"
    by (simp add: txn_key_def str_of_nat.simps)
  have first: "map (\<lambda>t. (category t, confidence t, source t))
       (fst (batch_categorize_with_llm example_conversions (example_api ApiRaises) example_llm
              [example_txn]))
     = [(''other'', 0.3, ''fallback'')]"
    using failure_gives_fallback [where api = "example_api ApiRaises" and batch = "[example_txn]"
        and llm = example_llm and conv = example_conversions] r
    by (intro singleton_fallback) simp_all
  have second: "map (\<lambda>t. (category t, confidence t, source t))
       (fst (batch_categorize_with_llm example_conversions ?bad example_llm [example_txn]))
     = [(''other'', 0.3, ''fallback'')]"
    using failure_gives_fallback [where api = ?bad and batch = "[example_txn]"
        and llm = example_llm and conv = example_conversions] u
    by (intro singleton_fallback) (simp_all add: example_api_def)
  have third: "category (fst (batch_categorize_with_llm example_conversions ?ok example_llm
          [example_txn, example_txn]) ! 1) = ''other'' \<and>
      confidence (fst (batch_categorize_with_llm example_conversions ?ok example_llm
          [example_txn, example_txn]) ! 1) = 0.5 \<and>
      source (fst (batch_categorize_with_llm example_conversions ?ok example_llm
          [example_txn, example_txn]) ! 1) = ''fallback''"
    using failure_gives_fallback [where api = ?ok and batch = "[example_txn, example_txn]"
        and j = "example_response ''fees'' 0.9" and cats = ?cats and i = 1
        and llm = example_llm and conv = example_conversions] v k
    by (simp add: example_api_def)
  show ?thesis using r first u second v third by simp
qed

subsection \<open>Coverage\<close>

lemma batch_category:
  assumes "i < length batch"
  shows "category (fst (batch_categorize_with_llm conv api llm batch) ! i) =
     (case response_entry conv (api (transaction_data batch)) i of
        Some c \<Rightarrow> cat_category c
      | None \<Rightarrow> ''other'')"
proof (cases "\<exists>j cats. api (transaction_data batch) = ApiReturns (JsonText j) \<and>
                        validate_response conv j = Some cats")
  case True
  then obtain j cats where a: "api (transaction_data batch) = ApiReturns (JsonText j)"
    and v: "validate_response conv j = Some cats"
    by blast
  have "fst (batch_categorize_with_llm conv api llm batch) = apply_llm_categorization batch cats"
    by (simp add: fst_batch fst_make_call handle_response_def a v)
  then show ?thesis
    using assms
    by (simp add: llm_result_nth apply_llm_entry_def response_entry_def a v
        split: option.splits)
next
  case False
  then have e: "response_entry conv (api (transaction_data batch)) i = None"
    by (auto simp: response_entry_def split: api_result.splits response_text.splits
        option.splits)
  from False have "fst (batch_categorize_with_llm conv api llm batch)
      = apply_fallback_categorization batch"
    by (auto simp: fst_batch fst_make_call handle_response_def
        split: api_result.splits response_text.splits option.splits)
  then show ?thesis
    using assms by (simp add: e apply_fallback_categorization_def fallback_txn_def)
qed

lemma partition_lengths:
  "length (already_categorized txs) + length (needs_llm txs) = length txs"
  unfolding already_categorized_def needs_llm_def
  using sum_length_filter_compl [of "\<lambda>t. category t = ''uncategorized''" txs] by simp

lemma already_categorized_nth:
  "i < length (already_categorized txs) \<Longrightarrow>
     category (already_categorized txs ! i) \<noteq> ''uncategorized''"
proof -
  assume "i < length (already_categorized txs)"
  then have "already_categorized txs ! i \<in> set (already_categorized txs)"
    by (rule nth_mem)
  then show ?thesis by (simp add: already_categorized_def)
qed

lemma process_result_length: "length (fst (process conv api ag llm txs)) = length txs"
proof (cases "needs_llm txs = []")
  case True
  then show ?thesis by (simp add: process_empty)
next
  case False
  then show ?thesis
    using partition_lengths [of txs]
    by (simp add: process_nonempty fst_batch length_handle_response)
qed

text \<open>
  Claim C2, amended. The result of \<open>process\<close> has as many transactions as the batch,
  and the one at position \<open>i\<close> has category \<open>uncategorized\<close> exactly when it is one of
  the transactions sent for classification and the entry that the accepted response
  holds for it says \<open>uncategorized\<close> itself. In every other case (a transaction that was
  already categorized, a call that fails, a response that is rejected, no entry for the
  transaction, an entry with any other category) its category is not \<open>uncategorized\<close>.
\<close>

theorem uncategorized_only_from_response:
  "length (fst (process conv api ag llm txs)) = length txs \<and>
   (\<forall>i < length txs.
      (category (fst (process conv api ag llm txs) ! i) = ''uncategorized'') =
      (length (already_categorized txs) \<le> i \<and>
       (\<exists>c. response_entry conv (api (transaction_data (needs_llm txs)))
               (i - length (already_categorized txs)) = Some c \<and>
            cat_category c = ''uncategorized'')))"
proof (intro conjI allI impI)
  show "length (fst (process conv api ag llm txs)) = length txs"
    by (rule process_result_length)
next
  fix i assume i: "i < length txs"
  let ?n = "length (already_categorized txs)"
  show "(category (fst (process conv api ag llm txs) ! i) = ''uncategorized'') =
      (?n \<le> i \<and>
       (\<exists>c. response_entry conv (api (transaction_data (needs_llm txs))) (i - ?n) = Some c \<and>
            cat_category c = ''uncategorized''))"
  proof (cases "i < ?n")
    case True
    have "fst (process conv api ag llm txs) ! i = already_categorized txs ! i"
    proof (cases "needs_llm txs = []")
      case True
      then show ?thesis by (simp add: process_empty already_categorized_all)
    next
      case False
      then show ?thesis using \<open>i < ?n\<close> by (simp add: process_nonempty nth_append)
    qed
    then show ?thesis using True already_categorized_nth [OF True] by simp
  next
    case False
    then have k: "i - ?n < length (needs_llm txs)"
      using i partition_lengths [of txs] by simp
    then have ne: "needs_llm txs \<noteq> []" by auto
    have "fst (process conv api ag llm txs) ! i =
        fst (batch_categorize_with_llm conv api llm (needs_llm txs)) ! (i - ?n)"
      using False by (simp add: process_nonempty [OF ne] nth_append)
    then show ?thesis
      using False batch_category [OF k, of conv api llm]
      by (auto split: option.splits)
  qed
qed

text \<open>
  Whatever else the validation library converts, a table that reads a JSON string and a
  JSON number as they are accepts the one-entry example response and the classifier
  writes the category of its entry to the transaction, whatever that category is.
\<close>

lemma exact_types_response_valid:
  assumes "\<And>s. to_str conv (JStr s) = Some s" and "to_float conv (JNum x) = Some x"
    and "0 \<le> x" and "x \<le> 1"
  shows "validate_response conv (example_response c x) =
     Some [\<lparr>cat_transaction_id = ''txn_0'', cat_category = c, cat_confidence = x,
            cat_reasoning = ''guess''\<rparr>]"
  using assms
  by (simp add: validate_response_def example_response_def validate_entry_def example_entry_def)

lemma exact_types_category_applied:
  assumes "\<And>s. to_str conv (JStr s) = Some s" and "to_float conv (JNum x) = Some x"
    and "0 \<le> x" and "x \<le> 1"
  shows "map category
     (fst (process conv (example_api (ApiReturns (JsonText (example_response c x))))
             ag llm [example_txn])) = [c]"
  by (simp add: process_def example_needs example_already batch_unfold fst_make_call
      example_api_def handle_response_def exact_types_response_valid [OF assms]
      apply_llm_categorization_def apply_llm_entry_def cat_lookup_def txn_key_def
      str_of_nat.simps)

lemma example_stray_valid:
  "validate_response example_conversions example_response_stray =
     Some [\<lparr>cat_transaction_id = ''txn_0'', cat_category = ''fees'', cat_confidence = 0.9,
            cat_reasoning = ''guess''\<rparr>,
           \<lparr>cat_transaction_id = ''txn_7'', cat_category = ''uncategorized'',
            cat_confidence = 0.9, cat_reasoning = ''guess''\<rparr>]"
  by (simp add: validate_response_def example_response_stray_def example_entry_valid)

text \<open>
  Claim C2 as stated fails: a valid response that assigns \<open>uncategorized\<close> to the
  transaction is applied as it is.
\<close>

theorem coverage_counterexample:
  "map category
     (fst (process example_conversions
             (example_api (ApiReturns (JsonText (example_response ''uncategorized'' 0.9))))
             example_agent example_llm [example_txn])) = [''uncategorized'']"
  by (simp add: process_def example_needs example_already batch_unfold fst_make_call
      example_api_def handle_response_def example_response_valid apply_llm_categorization_def
      apply_llm_entry_def cat_lookup_def txn_key_def str_of_nat.simps)

text \<open>
  An instance in which the response is accepted and holds an entry that says
  \<open>uncategorized\<close>, but not for a transaction of the batch: the output is covered.
\<close>

theorem uncategorized_only_from_response_witness:
  "response_entry example_conversions
     (example_api (ApiReturns (JsonText example_response_stray))
        (transaction_data (needs_llm [example_txn]))) 0 =
     Some \<lparr>cat_transaction_id = ''txn_0'', cat_category = ''fees'', cat_confidence = 0.9,
           cat_reasoning = ''guess''\<rparr> \<and>
   length (fst (process example_conversions
      (example_api (ApiReturns (JsonText example_response_stray)))
      example_agent example_llm [example_txn])) = 1 \<and>
   category (fst (process example_conversions
      (example_api (ApiReturns (JsonText example_response_stray)))
      example_agent example_llm [example_txn]) ! 0) \<noteq> ''uncategorized''"
proof -
  let ?api = "example_api (ApiReturns (JsonText example_response_stray))"
  have e: "response_entry example_conversions (?api (transaction_data (needs_llm [example_txn]))) 0 =
     Some \<lparr>cat_transaction_id = ''txn_0'', cat_category = ''fees'', cat_confidence = 0.9,
           cat_reasoning = ''guess''\<rparr>"
    by (simp add: response_entry_def example_api_def example_stray_valid cat_lookup_def
        txn_key_def str_of_nat.simps)
  note t = uncategorized_only_from_response [where conv = example_conversions and api = ?api
      and ag = example_agent and llm = example_llm and txs = "[example_txn]"]
  have l: "length (fst (process example_conversions ?api example_agent example_llm [example_txn])) = 1"
    using conjunct1 [OF t] by simp
  have "(category (fst (process example_conversions ?api example_agent example_llm [example_txn]) ! 0)
         = ''uncategorized'') =
      (length (already_categorized [example_txn]) \<le> 0 \<and>
       (\<exists>c. response_entry example_conversions (?api (transaction_data (needs_llm [example_txn])))
               (0 - length (already_categorized [example_txn])) = Some c \<and>
            cat_category c = ''uncategorized''))"
    using conjunct2 [OF t] by simp
  then have "category (fst (process example_conversions ?api example_agent example_llm
      [example_txn]) ! 0) \<noteq> ''uncategorized''"
    by (simp add: example_already e)
  with e l show ?thesis by simp
qed

text \<open>
  With the conversions of the examples, a confidence given as the string \<open>0.9\<close> is
  read as the number: the response is accepted and applied.
\<close>

lemma text_confidence_applied:
  "map (\<lambda>t. (category t, confidence t, source t))
     (fst (process example_conversions
             (example_api (ApiReturns (JsonText example_response_text_confidence)))
             example_agent example_llm [example_txn])) = [(''uncategorized'', 0.9, ''llm'')]"
proof -
  have f: "py_float (strip ''0.9'') = Some 0.9"
    by code_simp
  have v: "validate_response example_conversions example_response_text_confidence =
      Some [\<lparr>cat_transaction_id = ''txn_0'', cat_category = ''uncategorized'',
             cat_confidence = 0.9, cat_reasoning = ''guess''\<rparr>]"
    by (simp add: validate_response_def example_response_text_confidence_def validate_entry_def
        example_entry_def example_conversions_def f)
  show ?thesis
    by (simp add: process_def example_needs example_already batch_unfold fst_make_call
        example_api_def handle_response_def v apply_llm_categorization_def
        apply_llm_entry_def cat_lookup_def txn_key_def str_of_nat.simps)
qed

subsection \<open>Frame\<close>

lemma frame_apply_llm_entry: "frame_fields (apply_llm_entry cats (i, t)) = frame_fields t"
  by (simp add: apply_llm_entry_def frame_fields_def split: option.splits)

lemma frame_fallback_txn: "frame_fields (fallback_txn t) = frame_fields t"
  by (simp add: fallback_txn_def frame_fields_def)

lemma frame_llm:
  "map frame_fields (apply_llm_categorization txs cats) = map frame_fields txs"
proof -
  have "map frame_fields (map (apply_llm_entry cats) (enumerate n txs)) = map frame_fields txs" for n
    by (induction txs arbitrary: n) (simp_all add: frame_apply_llm_entry)
  then show ?thesis by (simp add: apply_llm_categorization_def)
qed

lemma frame_fallback:
  "map frame_fields (apply_fallback_categorization txs) = map frame_fields txs"
  by (simp add: apply_fallback_categorization_def frame_fallback_txn)

lemma frame_handle_response:
  "map frame_fields (handle_response conv txs r) = map frame_fields txs"
  by (simp add: handle_response_def frame_llm frame_fallback
      split: option.splits response_text.splits)

lemma frame_basic:
  "map frame_fields (apply_basic_categorization txs) = map frame_fields txs"
  by (simp add: apply_basic_categorization_def frame_fields_def split: prod.splits)

text \<open>
  Claim C10. The categorization stage of the Merchant Categorizer, both ways the Fallback
  Classifier writes its results, and \<open>process\<close> as a whole leave the fields date,
  description, amount, is_debit, balance, transaction_id, original_line and pattern_used
  of every transaction as they were. (\<open>process\<close> returns the transactions that were
  already categorized first, then the ones it classified.)
\<close>

theorem categorization_frame:
  "map frame_fields (apply_basic_categorization txs) = map frame_fields txs \<and>
   map frame_fields (apply_llm_categorization txs cats) = map frame_fields txs \<and>
   map frame_fields (apply_fallback_categorization txs) = map frame_fields txs \<and>
   map frame_fields (fst (process conv api ag llm txs))
     = map frame_fields (already_categorized txs @ needs_llm txs)"
proof -
  have "map frame_fields (fst (process conv api ag llm txs))
     = map frame_fields (already_categorized txs @ needs_llm txs)"
  proof (cases "needs_llm txs = []")
    case True
    then show ?thesis by (simp add: process_def)
  next
    case False
    then show ?thesis
      by (simp add: process_nonempty fst_batch frame_handle_response)
  qed
  then show ?thesis by (simp add: frame_basic frame_llm frame_fallback)
qed

theorem categorization_frame_witness:
  "map frame_fields (fst (process example_conversions
       (example_api (ApiReturns (JsonText (example_response ''fees'' 0.9))))
       example_agent example_llm [example_txn, example_txn\<lparr>category := ''fees''\<rparr>]))
     = [frame_fields example_txn, frame_fields example_txn] \<and>
   map frame_fields (apply_fallback_categorization [example_txn]) = [frame_fields example_txn]"
  using categorization_frame [where conv = example_conversions
      and api = "example_api (ApiReturns (JsonText (example_response ''fees'' 0.9)))"
      and ag = example_agent and llm = example_llm
      and txs = "[example_txn, example_txn\<lparr>category := ''fees''\<rparr>]"]
    categorization_frame [where txs = "[example_txn]"]
  by (simp add: already_categorized_def needs_llm_def frame_fields_def example_txn_def)

subsection \<open>Validation\<close>

lemma validate_entry_iff: "(validate_entry conv e = Some c) = well_formed_entry conv e c"
proof
  assume "validate_entry conv e = Some c"
  then show "well_formed_entry conv e c"
    unfolding validate_entry_def well_formed_entry_def
    by (auto split: json.splits option.splits if_splits)
next
  assume "well_formed_entry conv e c"
  then obtain kvs vi vc vx vr where "e = JObj kvs"
    and "map_of kvs ''transaction_id'' = Some vi" "to_str conv vi = Some (cat_transaction_id c)"
    and "map_of kvs ''category'' = Some vc" "to_str conv vc = Some (cat_category c)"
    and "map_of kvs ''confidence'' = Some vx" "to_float conv vx = Some (cat_confidence c)"
    and "map_of kvs ''reasoning'' = Some vr" "to_str conv vr = Some (cat_reasoning c)"
    and "0 \<le> cat_confidence c" "cat_confidence c \<le> 1"
    unfolding well_formed_entry_def by blast
  then show "validate_entry conv e = Some c"
    by (simp add: validate_entry_def)
qed

lemma those_map_iff:
  "(those (map f xs) = Some ys) = list_all2 (\<lambda>x y. f x = Some y) xs ys"
proof (induction xs arbitrary: ys)
  case Nil
  then show ?case by auto
next
  case (Cons x xs)
  show ?case
  proof (cases "f x")
    case None
    then show ?thesis by (auto simp: list_all2_Cons1)
  next
    case (Some y)
    then show ?thesis
      using Cons.IH by (cases "those (map f xs)") (auto simp: list_all2_Cons1)
  qed
qed

lemma those_map_None:
  "x \<in> set xs \<Longrightarrow> f x = None \<Longrightarrow> those (map f xs) = None"
  by (induction xs) (auto split: option.splits)

lemma validate_response_iff:
  "(validate_response conv j = Some cats) =
   (\<exists>items entries. j = JObj items \<and> map_of items ''categorizations'' = Some (JArr entries) \<and>
      list_all2 (well_formed_entry conv) entries cats)"
proof
  assume a: "validate_response conv j = Some cats"
  then obtain items where j: "j = JObj items"
    by (cases j) (simp_all add: validate_response_def)
  from a j obtain entries where c: "map_of items ''categorizations'' = Some (JArr entries)"
    and t: "those (map (validate_entry conv) entries) = Some cats"
    by (auto simp: validate_response_def split: option.splits json.splits)
  from t have "list_all2 (well_formed_entry conv) entries cats"
    by (simp add: those_map_iff validate_entry_iff)
  with j c show "\<exists>items entries. j = JObj items \<and>
      map_of items ''categorizations'' = Some (JArr entries) \<and>
      list_all2 (well_formed_entry conv) entries cats"
    by (intro exI [of _ items] exI [of _ entries] conjI)
next
  assume "\<exists>items entries. j = JObj items \<and>
      map_of items ''categorizations'' = Some (JArr entries) \<and>
      list_all2 (well_formed_entry conv) entries cats"
  then obtain items entries where "j = JObj items"
    and "map_of items ''categorizations'' = Some (JArr entries)"
    and "list_all2 (well_formed_entry conv) entries cats"
    by blast
  then show "validate_response conv j = Some cats"
    by (simp add: validate_response_def those_map_iff validate_entry_iff)
qed

lemma bad_confidence_entry:
  "map_of kvs ''confidence'' = Some vx \<Longrightarrow> to_float conv vx = Some x \<Longrightarrow> x < 0 \<or> 1 < x \<Longrightarrow>
     validate_entry conv (JObj kvs) = None"
  unfolding validate_entry_def by (auto split: option.splits)

lemma bad_confidence_response:
  assumes "map_of items ''categorizations'' = Some (JArr entries)"
    and "JObj kvs \<in> set entries" and "map_of kvs ''confidence'' = Some vx"
    and "to_float conv vx = Some x" and "x < 0 \<or> 1 < x"
  shows "validate_response conv (JObj items) = None"
proof -
  have "validate_entry conv (JObj kvs) = None"
    using assms(3,4,5) by (rule bad_confidence_entry)
  with assms(2) have "those (map (validate_entry conv) entries) = None"
    by (rule those_map_None)
  with assms(1) show ?thesis by (simp add: validate_response_def)
qed

lemma any_category_accepted:
  assumes "validate_entry conv (JObj kvs) = Some c"
    and "to_str conv (JStr s) = Some s"
    and "map_of kvs' = (map_of kvs)(''category'' \<mapsto> JStr s)"
  shows "validate_entry conv (JObj kvs') = Some (c\<lparr>cat_category := s\<rparr>)"
proof -
  from assms(1) obtain vi vc vx vr where
    "map_of kvs ''transaction_id'' = Some vi" "to_str conv vi = Some (cat_transaction_id c)"
    "map_of kvs ''category'' = Some vc" "to_str conv vc = Some (cat_category c)"
    "map_of kvs ''confidence'' = Some vx" "to_float conv vx = Some (cat_confidence c)"
    "map_of kvs ''reasoning'' = Some vr" "to_str conv vr = Some (cat_reasoning c)"
    "0 \<le> cat_confidence c" "cat_confidence c \<le> 1"
    unfolding validate_entry_iff well_formed_entry_def by auto
  then have "well_formed_entry conv (JObj kvs') (c\<lparr>cat_category := s\<rparr>)"
    unfolding well_formed_entry_def using assms(2,3) by simp
  then show ?thesis by (simp add: validate_entry_iff)
qed

lemma accepted_entry_applied:
  assumes "validate_response conv j = Some cats" and "i < length batch"
    and "cat_lookup cats (txn_key i) = Some c"
  shows "handle_response conv batch (Some (JsonText j)) ! i =
     (batch ! i)\<lparr>category := cat_category c, confidence := cat_confidence c,
                  source := ''llm'', reasoning := Some (cat_reasoning c)\<rparr>"
  using assms by (simp add: handle_response_def llm_result_nth apply_llm_entry_def)

text \<open>
  Claim C3, amended. A response is accepted exactly when it is an object whose
  \<open>categorizations\<close> is a list of entries, each an object whose identifier, category
  and reasoning the validation library reads as text and whose confidence it reads as
  a number in [0, 1]. A response holding an entry whose confidence reads as a number
  outside [0, 1] is rejected as a whole, and the batch gets the wholesale fallback. The
  category is not compared with the vocabulary: putting any string in the place of the
  category of an accepted entry gives an accepted entry with that category, and the
  category of an accepted entry is written to its transaction, with the confidence and
  the reasoning, under the source \<open>llm\<close>.
\<close>

theorem response_schema:
  "((validate_response conv j = Some cats) =
      (\<exists>items entries. j = JObj items \<and>
          map_of items ''categorizations'' = Some (JArr entries) \<and>
          list_all2 (well_formed_entry conv) entries cats)) \<and>
   (map_of items' ''categorizations'' = Some (JArr entries') \<and> JObj kvs \<in> set entries' \<and>
    map_of kvs ''confidence'' = Some vx \<and> to_float conv vx = Some x \<and> (x < 0 \<or> 1 < x)
    \<longrightarrow> validate_response conv (JObj items') = None \<and>
        handle_response conv batch (Some (JsonText (JObj items')))
          = apply_fallback_categorization batch) \<and>
   (validate_entry conv (JObj fs) = Some c \<and> to_str conv (JStr s) = Some s \<and>
    map_of fs' = (map_of fs)(''category'' \<mapsto> JStr s)
    \<longrightarrow> validate_entry conv (JObj fs') = Some (c\<lparr>cat_category := s\<rparr>)) \<and>
   (validate_response conv j = Some cats \<and> i < length batch \<and>
    cat_lookup cats (txn_key i) = Some d
    \<longrightarrow> handle_response conv batch (Some (JsonText j)) ! i =
          (batch ! i)\<lparr>category := cat_category d, confidence := cat_confidence d,
                       source := ''llm'', reasoning := Some (cat_reasoning d)\<rparr>)"
proof (intro conjI impI)
  show "(validate_response conv j = Some cats) =
      (\<exists>items entries. j = JObj items \<and>
          map_of items ''categorizations'' = Some (JArr entries) \<and>
          list_all2 (well_formed_entry conv) entries cats)"
    by (rule validate_response_iff)
next
  assume a: "map_of items' ''categorizations'' = Some (JArr entries') \<and>
    JObj kvs \<in> set entries' \<and> map_of kvs ''confidence'' = Some vx \<and>
    to_float conv vx = Some x \<and> (x < 0 \<or> 1 < x)"
  show r: "validate_response conv (JObj items') = None"
    using a bad_confidence_response [of items' entries' kvs vx conv x] by simp
  show "handle_response conv batch (Some (JsonText (JObj items')))
      = apply_fallback_categorization batch"
    using r by (simp add: handle_response_def)
next
  assume "validate_entry conv (JObj fs) = Some c \<and> to_str conv (JStr s) = Some s \<and>
    map_of fs' = (map_of fs)(''category'' \<mapsto> JStr s)"
  then show "validate_entry conv (JObj fs') = Some (c\<lparr>cat_category := s\<rparr>)"
    using any_category_accepted [of conv fs c s fs'] by simp
next
  assume "validate_response conv j = Some cats \<and> i < length batch \<and>
    cat_lookup cats (txn_key i) = Some d"
  then show "handle_response conv batch (Some (JsonText j)) ! i =
          (batch ! i)\<lparr>category := cat_category d, confidence := cat_confidence d,
                       source := ''llm'', reasoning := Some (cat_reasoning d)\<rparr>"
    using accepted_entry_applied [of conv j cats i batch d] by simp
qed

text \<open>
  Claim C3 as stated fails: an entry whose category \<open>crypto\<close> is outside the vocabulary
  is accepted and applied.
\<close>

theorem response_schema_counterexample:
  "validate_response example_conversions (example_response ''crypto'' 0.9) =
     Some [\<lparr>cat_transaction_id = ''txn_0'', cat_category = ''crypto'', cat_confidence = 0.9,
            cat_reasoning = ''guess''\<rparr>] \<and>
   ''crypto'' \<notin> set valid_categories \<and>
   map category
     (fst (process example_conversions
             (example_api (ApiReturns (JsonText (example_response ''crypto'' 0.9))))
             example_agent example_llm [example_txn])) = [''crypto'']"
  by (simp add: process_def example_needs example_already batch_unfold fst_make_call
      example_api_def handle_response_def valid_categories_def example_response_valid
      apply_llm_categorization_def apply_llm_entry_def cat_lookup_def txn_key_def
      str_of_nat.simps)

theorem response_schema_witness:
  "validate_response example_conversions (example_response ''fees'' 1.5) = None \<and>
   handle_response example_conversions [example_txn]
       (Some (JsonText (example_response ''fees'' 1.5)))
     = apply_fallback_categorization [example_txn] \<and>
   validate_entry example_conversions (example_entry ''txn_0'' ''no such category'' (JNum 0.9)) =
     Some \<lparr>cat_transaction_id = ''txn_0'', cat_category = ''no such category'',
           cat_confidence = 0.9, cat_reasoning = ''guess''\<rparr> \<and>
   handle_response example_conversions [example_txn]
       (Some (JsonText (example_response ''fees'' 0.9))) ! 0
     = example_txn\<lparr>category := ''fees'', confidence := 0.9, source := ''llm'',
                    reasoning := Some ''guess''\<rparr>"
proof -
  let ?fees = "\<lparr>cat_transaction_id = ''txn_0'', cat_category = ''fees'', cat_confidence = 0.9,
                cat_reasoning = ''guess''\<rparr>"
  let ?kvs = "\<lambda>c x. [(''transaction_id'', JStr ''txn_0''), (''category'', JStr c),
                       (''confidence'', JNum x), (''reasoning'', JStr ''guess'')]"
  let ?items = "[(''categorizations'', JArr [JObj (?kvs ''fees'' 1.5)])]"
  have bad: "example_response ''fees'' 1.5 = JObj ?items"
    by (simp add: example_response_def example_entry_def)
  have entry: "example_entry ''txn_0'' c (JNum x) = JObj (?kvs c x)" for c x
    by (simp add: example_entry_def)
  have h2: "map_of ?items ''categorizations'' = Some (JArr [JObj (?kvs ''fees'' 1.5)]) \<and>
      JObj (?kvs ''fees'' 1.5) \<in> set [JObj (?kvs ''fees'' 1.5)] \<and>
      map_of (?kvs ''fees'' 1.5) ''confidence'' = Some (JNum 1.5) \<and>
      to_float example_conversions (JNum 1.5) = Some 1.5 \<and> ((1.5::real) < 0 \<or> 1 < (1.5::real))"
    by (simp add: example_conversions_def)
  have upd: "map_of (?kvs ''no such category'' 0.9)
      = (map_of (?kvs ''fees'' 0.9))(''category'' \<mapsto> JStr ''no such category'')"
    by (auto simp: fun_eq_iff)
  have h3: "validate_entry example_conversions (JObj (?kvs ''fees'' 0.9)) = Some ?fees \<and>
      to_str example_conversions (JStr ''no such category'') = Some ''no such category'' \<and>
      map_of (?kvs ''no such category'' 0.9)
        = (map_of (?kvs ''fees'' 0.9))(''category'' \<mapsto> JStr ''no such category'')"
    using example_entry_valid [of "0.9" "''txn_0''" "''fees''"] upd
    by (simp add: entry example_conversions_def)
  have h4: "validate_response example_conversions (example_response ''fees'' 0.9) = Some [?fees] \<and>
      0 < length [example_txn] \<and> cat_lookup [?fees] (txn_key 0) = Some ?fees"
    by (simp add: example_response_valid cat_lookup_def txn_key_def str_of_nat.simps)
  note t = response_schema [where conv = example_conversions and items' = ?items
      and entries' = "[JObj (?kvs ''fees'' 1.5)]" and kvs = "?kvs ''fees'' 1.5"
      and vx = "JNum 1.5" and x = "1.5" and batch = "[example_txn]"
      and fs = "?kvs ''fees'' 0.9" and c = ?fees and s = "''no such category''"
      and fs' = "?kvs ''no such category'' 0.9"
      and j = "example_response ''fees'' 0.9" and cats = "[?fees]" and i = 0 and d = ?fees]
  note t2 = conjunct1 [OF conjunct2 [OF t], THEN mp, OF h2]
  note t3 = conjunct1 [OF conjunct2 [OF conjunct2 [OF t]], THEN mp, OF h3]
  note t4 = conjunct2 [OF conjunct2 [OF conjunct2 [OF t]], THEN mp, OF h4]
  show ?thesis
  proof (intro conjI)
    show "validate_response example_conversions (example_response ''fees'' 1.5) = None"
      unfolding bad by (rule conjunct1 [OF t2])
    show "handle_response example_conversions [example_txn]
        (Some (JsonText (example_response ''fees'' 1.5)))
      = apply_fallback_categorization [example_txn]"
      unfolding bad by (rule conjunct2 [OF t2])
    show "validate_entry example_conversions
        (example_entry ''txn_0'' ''no such category'' (JNum 0.9)) =
      Some \<lparr>cat_transaction_id = ''txn_0'', cat_category = ''no such category'',
            cat_confidence = 0.9, cat_reasoning = ''guess''\<rparr>"
      using t3 by (simp add: entry)
    show "handle_response example_conversions [example_txn]
        (Some (JsonText (example_response ''fees'' 0.9))) ! 0
      = example_txn\<lparr>category := ''fees'', confidence := 0.9, source := ''llm'',
                     reasoning := Some ''guess''\<rparr>"
      using t4 by simp
  qed
qed

section \<open>Properties of the Merchant Categorizer and the Transaction Parser\<close>

subsection \<open>Substrings and first match\<close>

lemma startswith_prefix: "startswith s p = prefix p s"
  unfolding startswith_def
  by (metis append_eq_conv_conj prefix_def take_is_prefix)

lemma py_in_sublist: "py_in k s = sublist k s"
  by (induction s) (simp_all add: startswith_prefix sublist_Cons_right)

lemma first_keyword_find: "first_keyword ks d = find (\<lambda>k. py_in k d) ks"
  by (induction ks) simp_all

lemma find_tagged:
  "find (\<lambda>(c, k). P k) (map (\<lambda>k. (c0, k)) ks) = map_option (\<lambda>k. (c0, k)) (find P ks)"
  by (induction ks) simp_all

lemma find_append_cases:
  "find P (xs @ ys) = (case find P xs of None \<Rightarrow> find P ys | Some x \<Rightarrow> Some x)"
  by (induction xs) simp_all

lemma calculate_confidence_tier: "calculate_confidence k d = confidence_tier k"
  by (simp add: calculate_confidence_def confidence_tier_def)

lemma scan_categories_find:
  "scan_categories cats d =
     (case find (\<lambda>(c, k). py_in k d) (concat (map (\<lambda>(c, ks). map (\<lambda>k. (c, k)) ks) cats)) of
        None \<Rightarrow> (''uncategorized'', 0)
      | Some (c, k) \<Rightarrow> (c, confidence_tier k))"
proof (induction cats)
  case Nil
  then show ?case by simp
next
  case (Cons a cats)
  obtain c ks where a: "a = (c, ks)" by (cases a)
  show ?case
    by (cases "find (\<lambda>k. py_in k d) ks")
       (simp_all add: a Cons.IH first_keyword_find find_append_cases find_tagged
          calculate_confidence_tier)
qed


text \<open>
  Claim C6. \<open>categorize_transaction\<close> returns the category of the first keyword, in the
  order of the categories and of the keywords within each, that is a substring of the
  cleaned description, with the tiered confidence of that keyword (0.95 for starbucks,
  walmart, amazon and netflix; 0.90 for gas station, grocery and pharmacy; 0.75 for
  restaurant, cafe and market; 0.80 otherwise), and \<open>uncategorized\<close> with 0.0 when no
  keyword occurs. \<open>STARBUCKS STORE #1234\<close> is cleaned to \<open>starbucks store\<close> and
  categorized as \<open>food_dining\<close> with confidence 0.95.
\<close>

theorem categorizer_first_match:
  "categorize_transaction d = first_match_categorize d \<and>
   desc_clean_of ''STARBUCKS STORE #1234'' = ''starbucks store'' \<and>
   categorize_transaction ''STARBUCKS STORE #1234'' = (''food_dining'', 0.95)"
proof (intro conjI)
  show "categorize_transaction d = first_match_categorize d"
    by (simp add: categorize_transaction_def first_match_categorize_def keyword_order_def
        scan_categories_find py_in_sublist)
  show "desc_clean_of ''STARBUCKS STORE #1234'' = ''starbucks store''"
    by code_simp
  show "categorize_transaction ''STARBUCKS STORE #1234'' = (''food_dining'', 0.95)"
    by code_simp
qed

theorem categorizer_first_match_witness:
  "categorize_transaction ''WALMART #12'' = first_match_categorize ''WALMART #12'' \<and>
   first_match_categorize ''WALMART #12'' = (''groceries'', 0.95)"
proof -
  have "first_match_categorize ''WALMART #12'' = (''groceries'', 0.95)"
    by code_simp
  with conjunct1 [OF categorizer_first_match [of "''WALMART #12''"]] show ?thesis
    by (rule conjI)
qed

subsection \<open>Dates\<close>



















subsection \<open>Direction\<close>

text \<open>
  Claim C7. \<open>_is_debit_transaction\<close> follows this order: an amount token that starts
  with \<open>-\<close> or \<open>+\<close> is a debit exactly when the sign is \<open>-\<close>; otherwise a debit keyword
  in the lowercased line makes it a debit; otherwise a credit keyword makes it a
  credit; otherwise it is a debit.
\<close>

theorem direction_inference_order:
  "is_debit_transaction amount_str line =
     (if prefix ''-'' amount_str \<or> prefix ''+'' amount_str then prefix ''-'' amount_str
      else if \<exists>k \<in> {''withdrawal'', ''purchase'', ''payment'', ''fee'', ''charge''}.
                 sublist k (lower line) then True
      else if \<exists>k \<in> {''deposit'', ''interest'', ''refund'', ''credit'', ''salary''}.
                 sublist k (lower line) then False
      else True)"
  by (simp add: is_debit_transaction_def startswith_prefix py_in_sublist Let_def
      debit_keywords_def credit_keywords_def list_ex_iff)


theorem direction_inference_order_witness:
  "is_debit_transaction ''+5.00'' ''01/02/2024 CARD PURCHASE +5.00 10.00'' = False \<and>
   is_debit_transaction ''5.00'' ''01/02/2024 Interest Payment 5.00 10.00'' = True \<and>
   is_debit_transaction ''5.00'' ''01/02/2024 PAYROLL DEPOSIT 5.00 10.00'' = False \<and>
   is_debit_transaction ''5.00'' ''01/02/2024 ZELLE 5.00 10.00'' = True"
proof (intro conjI)
  show "is_debit_transaction ''+5.00'' ''01/02/2024 CARD PURCHASE +5.00 10.00'' = False"
    by (subst direction_inference_order) code_simp
  show "is_debit_transaction ''5.00'' ''01/02/2024 Interest Payment 5.00 10.00'' = True"
    by (subst direction_inference_order) code_simp
  show "is_debit_transaction ''5.00'' ''01/02/2024 PAYROLL DEPOSIT 5.00 10.00'' = False"
    by (subst direction_inference_order) code_simp
  show "is_debit_transaction ''5.00'' ''01/02/2024 ZELLE 5.00 10.00'' = True"
    by (subst direction_inference_order) code_simp
qed

subsection \<open>Amounts\<close>

lemma extract_amount_nonneg: "0 \<le> amount (extract_transaction_data now p name segs line)"
  by (simp add: extract_transaction_data_def Let_def)

lemma try_patterns_amount:
  "try_patterns now ps line = Some t \<Longrightarrow> 0 \<le> amount t"
  by (induction ps) (auto split: option.splits simp: extract_amount_nonneg)

lemma parse_line_step_amount:
  "\<forall>t \<in> set acc. 0 \<le> amount t \<Longrightarrow> \<forall>t \<in> set (parse_line_step now acc l). 0 \<le> amount t"
  by (auto simp: parse_line_step_def parse_single_transaction_def
      split: option.splits dest: try_patterns_amount)

lemma parse_lines_amount:
  "\<forall>t \<in> set acc. 0 \<le> amount t \<Longrightarrow>
   \<forall>t \<in> set (foldl (parse_line_step now) acc ls). 0 \<le> amount t"
proof (induction ls arbitrary: acc)
  case Nil
  then show ?case by simp
next
  case (Cons l ls)
  from Cons.prems have "\<forall>t \<in> set (parse_line_step now acc l). 0 \<le> amount t"
    by (rule parse_line_step_amount)
  then show ?case by (simp add: Cons.IH)
qed

text \<open>
  Claim C9. Every transaction the parser produces, from one line or from a list of
  lines, has a non-negative amount: the sign of the amount token goes to \<open>is_debit\<close>
  only.
\<close>

theorem parsed_amount_nonneg:
  "(parse_single_transaction now line = Some t \<longrightarrow> 0 \<le> amount t) \<and>
   (\<forall>u \<in> set (parse_transaction_lines now transaction_lines). 0 \<le> amount u)"
  using parse_lines_amount [of "[]" now transaction_lines]
  by (simp add: parse_single_transaction_def try_patterns_amount parse_transaction_lines_def)


subsection \<open>The example line of the first pattern\<close>

text \<open>Without the number \<open>8901\<close> the line parses, by the first pattern.\<close>

lemma dunkin_without_number:
  "parse_single_transaction example_now ''02/01/2024 DUNKIN DONUTS -$4.50 $1,851.92'' =
     Some \<lparr>date = ''2024-02-01'', description = ''DUNKIN DONUTS'', amount = 4.5,
           is_debit = True, balance = 1851.92, category = ''uncategorized'',
           confidence = 0, source = ''deterministic'',
           original_line = ''02/01/2024 DUNKIN DONUTS -$4.50 $1,851.92'',
           pattern_used = ''Chase Format'', transaction_id = None, reasoning = None\<rparr>"
  by code_simp

theorem parsed_amount_nonneg_witness:
  "parse_single_transaction example_now ''02/01/2024 DUNKIN DONUTS -$4.50 $1,851.92'' =
     Some \<lparr>date = ''2024-02-01'', description = ''DUNKIN DONUTS'', amount = 4.5,
           is_debit = True, balance = 1851.92, category = ''uncategorized'',
           confidence = 0, source = ''deterministic'',
           original_line = ''02/01/2024 DUNKIN DONUTS -$4.50 $1,851.92'',
           pattern_used = ''Chase Format'', transaction_id = None, reasoning = None\<rparr> \<and>
   0 \<le> amount \<lparr>date = ''2024-02-01'', description = ''DUNKIN DONUTS'', amount = 4.5,
           is_debit = True, balance = 1851.92, category = ''uncategorized'',
           confidence = 0, source = ''deterministic'',
           original_line = ''02/01/2024 DUNKIN DONUTS -$4.50 $1,851.92'',
           pattern_used = ''Chase Format'', transaction_id = None, reasoning = None\<rparr>"
  using dunkin_without_number
    conjunct1 [OF parsed_amount_nonneg, THEN mp, OF dunkin_without_number]
  by (rule conjI)

lemma chase_regex_misses:
  "re_search (map snd chase_regex) ''02/01/2024 DUNKIN DONUTS 8901 -$4.50 $1,851.92'' = None"
  by code_simp

lemma wells_fargo_regex_misses:
  "re_search (map snd wells_fargo_regex) ''02/01/2024 DUNKIN DONUTS 8901 -$4.50 $1,851.92'' = None"
  by code_simp

lemma generic_regex_misses:
  "re_search (map snd generic_regex) ''02/01/2024 DUNKIN DONUTS 8901 -$4.50 $1,851.92'' = None"
  by code_simp

text \<open>
  Claim C5 does not hold of the code. The line that the comment of the first pattern
  gives as its example matches none of the three patterns: no description group admits
  a digit, so \<open>8901\<close> can only be the amount, and then \<open>-$4.50\<close> cannot be the
  balance. \<open>_parse_single_transaction\<close> returns \<open>None\<close> for it.
\<close>

theorem chase_example_not_parsed:
  "parse_single_transaction now ''02/01/2024 DUNKIN DONUTS 8901 -$4.50 $1,851.92'' = None"
  by (simp only: parse_single_transaction_def patterns_def try_patterns.simps
      chase_regex_misses wells_fargo_regex_misses generic_regex_misses option.case)

end
